theory Spec2Isabelle
  imports Main "HOL-Library.AList"
begin

section \<open>Data model\<close>

text \<open>
  The repository holds four variants of one WhatsApp session server:
  \<^item> \<open>main2.js\<close>: a bounded pool with a FIFO connection queue (suffix \<open>_main2\<close>);
  \<^item> \<open>part_000\<close>: a bounded pool that evicts the oldest client, with retries (suffix \<open>_p0\<close>);
  \<^item> \<open>part_001\<close>: an instance pool with saved sessions and retries (suffix \<open>_p1\<close>);
  \<^item> \<open>part_002\<close>: the basic server without any capacity limit (suffix \<open>_p2\<close>).

  Every variant keeps \<open>activeClients\<close>, a JavaScript \<open>Map\<close> from the tenant id to a mutable
  \<open>clientState\<close> object. The event handlers registered by \<open>initializeClient\<close> close over the
  object itself, not over the map entry, so the model keeps the objects in a store
  (\<open>objects\<close>, indexed by identity) and lets the map hold identities. A \<open>Map\<close> iterates in
  insertion order; it is an association list with distinct keys (\<open>AList.update\<close> keeps the
  position of an existing key and appends a new one, \<open>AList.delete\<close> removes the key).

  A handler runs as a sequence of steps, and other handlers run between its steps. A call
  of the driver (\<open>new Client\<close>, \<open>initialize()\<close>, \<open>destroy()\<close>, \<open>sendMessage()\<close>) and a teardown
  that the handler awaits are part of the handler's step. A step ends
  \<^item> where the handler awaits the \<open>readyPromise\<close> of a client: the rest of the handler is a
    step of its own, taken when the promise settles;
  \<^item> in \<open>main2.js\<close>, where \<open>initializeClient\<close> waits in \<open>await fs.ensureDir\<close>, between its capacity
    test and \<open>activeClients.set\<close>;
  \<^item> in \<open>main2.js\<close>, where the timer of a client has started \<open>cleanupSession\<close>, which the
    timer does not await: the teardown goes on in steps of its own.

  The functions \<open>initializeClient_main2\<close>, \<open>post_init_main2\<close> and \<open>post_send_message_main2\<close>
  give a call or a request through which no other handler runs; the steps of the server
  (\<open>step_main2\<close>) take them part by part.

  The clock reading \<open>Date.now()\<close> at the beginning of a step is an argument of the step
  (\<open>now\<close>, in milliseconds). Where the step waits for a timer, the readings after the wait
  are later (\<open>pause\<close>).
\<close>

type_synonym uid = string

datatype status = Initializing | Resuming | Pending | Authenticated | Ready | Disconnected | Error

datatype promise = Unsettled | Resolved | Rejected string

text \<open>
  The fields of a \<open>clientState\<close>. The field \<open>client\<close> is the identity of the object itself
  (each object owns the one \<open>Client\<close> built with it); \<open>pool_instance\<close> is the field
  \<open>instance\<close> of \<open>part_001\<close>; \<open>initTimeout\<close> tells whether the timer that
  \<open>initializeClient\<close> started for the object is still armed.
\<close>

record clientState =
  status :: status
  qrCode :: "string option"
  lastActivity :: int
  readyPromise :: "promise option"
  pool_instance :: "nat option"
  initTimeout :: bool

text \<open>
  \<open>objects\<close>, \<open>created\<close>: the store of \<open>clientState\<close> objects and how many were constructed
  (the next identity); \<open>destroyed\<close>: the clients on which \<open>destroy()\<close> was called, in call
  order; \<open>console\<close>: the \<open>console.error\<close> lines of teardown and of failed initializations;
  \<open>CONNECTION_QUEUE\<close>, \<open>isProcessingQueue\<close>, \<open>awaited\<close>: the queue of \<open>main2.js\<close> (an entry's
  \<open>resolve\<close> and \<open>reject\<close> settle the caller's promise and touch nothing else), its
  single-flight flag and the client on whose promise a suspended \<open>processQueue\<close> waits;
  \<open>clientPool\<close>, \<open>userSessions\<close>: the instance pool and the saved sessions of \<open>part_001\<close>
  (session data is \<open>(lastActive, authenticated)\<close>); \<open>retry_waits\<close>: the delays, in milliseconds, of
  the timers for which the \<open>catch\<close> block of \<open>initializeClient\<close> has waited before a retry
  (\<open>part_000\<close>, \<open>part_001\<close>).

  Two fields hold the calls of \<open>main2.js\<close> that are suspended with work on the registry
  still to do. \<open>admitted\<close>: the calls of \<open>initializeClient\<close> that have passed the capacity
  test and wait in \<open>await fs.ensureDir\<close>, each with its tenant and its caller. \<open>closing\<close>:
  the calls of \<open>cleanupSession\<close> that a timer started and nobody awaits, each with its
  tenant, the client of the record it found and whether \<open>destroy()\<close> has been called on it
  yet.
\<close>

datatype caller = InitRoute | SendRoute | QueueLoop

record server =
  objects :: "nat \<Rightarrow> clientState"
  created :: nat
  activeClients :: "(uid \<times> nat) list"
  destroyed :: "nat list"
  console :: "string list"
  CONNECTION_QUEUE :: "uid list"
  isProcessingQueue :: bool
  awaited :: "nat option"
  clientPool :: "(nat \<times> uid list) list"
  userSessions :: "(uid \<times> int \<times> bool) list"
  retry_waits :: "int list"
  admitted :: "(uid \<times> caller) list"
  closing :: "(uid \<times> nat \<times> bool) list"

text \<open>
  What the external collaborators do during a step. \<open>construct_err\<close> is the error thrown
  by \<open>new Client(...)\<close> for the client that would get the identity \<open>r\<close>. A driver call on the
  client \<open>r\<close> (\<open>client.initialize()\<close>, \<open>client.destroy()\<close>, \<open>client.sendMessage()\<close>) throws the
  given error, or resolves when there is none. \<open>writeJson_err\<close> is the error of \<open>fs.writeJson\<close> in
  \<open>saveSession\<close>; \<open>remove_err\<close> is the error of \<open>fs.pathExists\<close> or \<open>fs.remove\<close> in the
  \<open>cleanupSession\<close> of \<open>part_002\<close>; \<open>pathExists\<close> tells whether the tenant's session
  directory exists; \<open>readJson\<close> is the content of the tenant's saved session file, when it
  exists and can be read. \<open>fs.ensureDir\<close> is taken to resolve. \<open>late\<close> is the time, in
  milliseconds, by which a timer awaited during the step fires after its delay.
\<close>

record world =
  construct_err :: "nat \<Rightarrow> string option"
  initialize_err :: "nat \<Rightarrow> string option"
  destroy_err :: "nat \<Rightarrow> string option"
  sendMessage_err :: "nat \<Rightarrow> string option"
  writeJson_err :: "string option"
  remove_err :: "string option"
  pathExists :: "uid \<Rightarrow> bool"
  readJson :: "uid \<Rightarrow> (int \<times> bool) option"
  late :: nat

definition MAX_INSTANCES :: nat where
  "MAX_INSTANCES = 2"

definition INACTIVITY_TIMEOUT :: int where
  "INACTIVITY_TIMEOUT = 300000"

definition MAX_RETRIES :: nat where
  "MAX_RETRIES = 2"

text \<open>The delay of the timer before a retry (\<open>part_000\<close> line 218, \<open>part_001\<close> line 235).\<close>

definition RETRY_DELAY :: int where
  "RETRY_DELAY = 2000"

text \<open>
  \<open>await new Promise(resolve => setTimeout(resolve, d))\<close>: what \<open>Date.now()\<close> gives after the
  wait, when it gave \<open>now\<close> before it.
\<close>

definition pause :: "world \<Rightarrow> int \<Rightarrow> int \<Rightarrow> int" where
  "pause w d now = now + d + int (late w)"

definition new_clientState :: "status \<Rightarrow> int \<Rightarrow> promise option \<Rightarrow> bool \<Rightarrow> clientState" where
  "new_clientState st now p t =
     \<lparr>status = st, qrCode = None, lastActivity = now, readyPromise = p,
      pool_instance = None, initTimeout = t\<rparr>"

definition empty_server :: server where
  "empty_server =
     \<lparr>objects = (\<lambda>r. new_clientState Initializing 0 None False), created = 0,
      activeClients = [], destroyed = [], console = [],
      CONNECTION_QUEUE = [], isProcessingQueue = False, awaited = None,
      clientPool = [], userSessions = [], retry_waits = [], admitted = [], closing = []\<rparr>"

text \<open>A driver and a file system on which every call resolves.\<close>

definition calm :: world where
  "calm = \<lparr>construct_err = (\<lambda>r. None), initialize_err = (\<lambda>r. None),
            destroy_err = (\<lambda>r. None),
            sendMessage_err = (\<lambda>r. None), writeJson_err = None, remove_err = None,
            pathExists = (\<lambda>u. False), readJson = (\<lambda>u. None), late = 0\<rparr>"

text \<open>\<open>activeClients.get(uid)\<close>: the object stored under the key, if any.\<close>

definition get_client :: "server \<Rightarrow> uid \<Rightarrow> (nat \<times> clientState) option" where
  "get_client s u =
     (case map_of (activeClients s) u of
        None \<Rightarrow> None
      | Some r \<Rightarrow> Some (r, objects s r))"

text \<open>Field assignments on the object with identity \<open>r\<close>.\<close>

definition set_object :: "nat \<Rightarrow> (clientState \<Rightarrow> clientState) \<Rightarrow> server \<Rightarrow> server" where
  "set_object r f s = s\<lparr>objects := (objects s)(r := f (objects s r))\<rparr>"

text \<open>
  \<open>new Client(...)\<close> with a new \<open>clientState\<close>, followed by \<open>activeClients.set(uid, clientState)\<close>.
\<close>

definition store_client :: "uid \<Rightarrow> clientState \<Rightarrow> server \<Rightarrow> server" where
  "store_client u cs s =
     s\<lparr>objects := (objects s)(created s := cs), created := Suc (created s),
       activeClients := AList.update u (created s) (activeClients s)\<rparr>"

text \<open>\<open>resolve\<close> and \<open>reject\<close> of a \<open>readyPromise\<close>: a promise settles once.\<close>

definition settle :: "promise \<Rightarrow> nat \<Rightarrow> server \<Rightarrow> server" where
  "settle p r s =
     set_object r (\<lambda>c. if readyPromise c = Some Unsettled then c\<lparr>readyPromise := Some p\<rparr> else c) s"

text \<open>The line that the \<open>catch\<close> block of \<open>initializeClient\<close> writes to the error log.\<close>

definition init_error_line :: "uid \<Rightarrow> string" where
  "init_error_line u = ''Error initializing client for '' @ u"

text \<open>What a call of \<open>initializeClient\<close> gives its caller.\<close>

datatype result =
    Returned nat
  | Awaiting nat
  | Queued
  | Threw string

section \<open>Teardown: cleanupSession\<close>

text \<open>
  \<open>main2.js\<close>, lines 238-255. \<open>preserveSession\<close> writes only to \<open>sessionStore\<close>, catches its own
  errors and is left out. When \<open>client.destroy()\<close> throws, the \<open>catch\<close> logs, and the \<open>delete\<close>
  after the \<open>try\<close> runs all the same.
\<close>

definition cleanupSession_main2 :: "world \<Rightarrow> server \<Rightarrow> uid \<Rightarrow> server" where
  "cleanupSession_main2 w s u =
     (case get_client s u of
        None \<Rightarrow> s
      | Some (r, cs) \<Rightarrow>
          (let s1 = s\<lparr>destroyed := destroyed s @ [r]\<rparr>;
               s2 = (if destroy_err w r = None then s1
                     else s1\<lparr>console := console s1 @ [''Error during client cleanup:'']\<rparr>)
           in s2\<lparr>activeClients := AList.delete u (activeClients s2)\<rparr>))"

text \<open>
  \<open>part_000\<close>, lines 49-79: the inner \<open>try\<close> logs a failing \<open>destroy()\<close>; the \<open>delete\<close> is outside
  the \<open>if (clientState)\<close>.
\<close>

definition cleanupSession_p0 :: "world \<Rightarrow> server \<Rightarrow> uid \<Rightarrow> server" where
  "cleanupSession_p0 w s u =
     (let s2 = (case get_client s u of
                  None \<Rightarrow> s
                | Some (r, cs) \<Rightarrow>
                    (let s1 = s\<lparr>destroyed := destroyed s @ [r]\<rparr>
                     in if destroy_err w r = None then s1
                        else s1\<lparr>console := console s1 @ [''Error destroying client:'']\<rparr>))
      in s2\<lparr>activeClients := AList.delete u (activeClients s2)\<rparr>)"

text \<open>
  Both teardowns wait for a timer once \<open>destroy()\<close> is done: \<open>main2.js\<close> for 1000 ms, inside
  the \<open>try\<close>, so only when \<open>destroy()\<close> resolved (line 248); \<open>part_000\<close> for 2000 ms whatever
  \<open>destroy()\<close> did (line 61). A tenant without a record is not waited for. This is the reading
  of the clock after \<open>await cleanupSession(uid)\<close>.
\<close>

definition after_cleanupSession_main2 :: "world \<Rightarrow> int \<Rightarrow> server \<Rightarrow> uid \<Rightarrow> int" where
  "after_cleanupSession_main2 w now s u =
     (case get_client s u of
        None \<Rightarrow> now
      | Some (r, cs) \<Rightarrow> if destroy_err w r = None then pause w 1000 now else now)"

definition after_cleanupSession_p0 :: "world \<Rightarrow> int \<Rightarrow> server \<Rightarrow> uid \<Rightarrow> int" where
  "after_cleanupSession_p0 w now s u =
     (case get_client s u of
        None \<Rightarrow> now
      | Some (r, cs) \<Rightarrow> pause w 2000 now)"

text \<open>
  \<open>part_001\<close>, lines 35-51: \<open>saveSession\<close>. When \<open>fs.writeJson\<close> throws, \<open>userSessions\<close> is not
  updated and the error is logged.
\<close>

definition saveSession :: "world \<Rightarrow> int \<Rightarrow> server \<Rightarrow> uid \<Rightarrow> server" where
  "saveSession w now s u =
     (case get_client s u of
        None \<Rightarrow> s
      | Some (r, cs) \<Rightarrow>
          (if writeJson_err w = None
           then s\<lparr>userSessions := AList.update u (now, status cs = Ready) (userSessions s)\<rparr>
           else s\<lparr>console := console s @ [''Error saving session for '' @ u]\<rparr>))"

text \<open>The loop of lines 99-105: the first instance whose user set has \<open>uid\<close> loses it.\<close>

fun pool_remove :: "uid \<Rightarrow> (nat \<times> uid list) list \<Rightarrow> (nat \<times> uid list) list" where
  "pool_remove u [] = []"
| "pool_remove u ((i, users) # rest) =
     (if u \<in> set users then (i, removeAll u users) # rest else (i, users) # pool_remove u rest)"

text \<open>\<open>part_001\<close>, lines 90-118.\<close>

definition cleanupSession_p1 :: "world \<Rightarrow> int \<Rightarrow> server \<Rightarrow> uid \<Rightarrow> server" where
  "cleanupSession_p1 w now s u =
     (case get_client s u of
        None \<Rightarrow> s
      | Some (r, cs) \<Rightarrow>
          (let s1 = saveSession w now s u;
               s2 = s1\<lparr>clientPool := pool_remove u (clientPool s1)\<rparr>;
               s3 = s2\<lparr>destroyed := destroyed s2 @ [r]\<rparr>;
               s4 = (if destroy_err w r = None then s3
                     else s3\<lparr>console := console s3 @ [''Error destroying client for '' @ u]\<rparr>)
           in s4\<lparr>activeClients := AList.delete u (activeClients s4)\<rparr>))"

text \<open>
  \<open>part_002\<close>, lines 184-194: this variant removes the session directory and never calls
  \<open>destroy()\<close>. The \<open>delete\<close> is inside the \<open>try\<close>, after \<open>fs.remove\<close>.
\<close>

definition cleanupSession_p2 :: "world \<Rightarrow> server \<Rightarrow> uid \<Rightarrow> server" where
  "cleanupSession_p2 w s u =
     (if remove_err w = None then s\<lparr>activeClients := AList.delete u (activeClients s)\<rparr>
      else s\<lparr>console := console s @ [''Error cleaning up session for '' @ u]\<rparr>)"

section \<open>The queueing server, main2.js\<close>

text \<open>
  \<open>initializeClient\<close>, lines 129-236, runs in two parts, with \<open>await fs.ensureDir\<close> (line 145)
  between them. Other handlers run while the call waits there, and the second part does not
  test the capacity again.

  The first part, lines 129-142: a ready client is reused and its \<open>lastActivity\<close>
  refreshed; at capacity the caller is queued; otherwise the call goes on to build a client.
\<close>

datatype admission = Reuse nat | Enqueued | Admitted

definition admission_main2 :: "int \<Rightarrow> server \<Rightarrow> uid \<Rightarrow> admission \<times> server" where
  "admission_main2 now s u =
     (let gate =
            (if length (activeClients s) \<ge> MAX_INSTANCES
             then (Enqueued, s\<lparr>CONNECTION_QUEUE := CONNECTION_QUEUE s @ [u]\<rparr>)
             else (Admitted, s))
      in case get_client s u of
           Some (r, existingClient) \<Rightarrow>
             if status existingClient = Ready
             then (Reuse r, set_object r (\<lambda>c. c\<lparr>lastActivity := now\<rparr>) s)
             else gate
         | None \<Rightarrow> gate)"

text \<open>
  The second part, lines 147-235: the client is built and stored, and the caller waits for
  its \<open>readyPromise\<close>. There is no \<open>try\<close>: when \<open>new Client\<close> throws, nothing was stored; when
  \<open>client.initialize()\<close> throws, the record stays in the map.
\<close>

definition start_client_main2 :: "world \<Rightarrow> int \<Rightarrow> server \<Rightarrow> uid \<Rightarrow> result \<times> server" where
  "start_client_main2 w now s u =
     (case construct_err w (created s) of
        Some e \<Rightarrow> (Threw e, s)
      | None \<Rightarrow>
          (let s1 = store_client u (new_clientState Initializing now (Some Unsettled) True) s
           in case initialize_err w (created s) of
                None \<Rightarrow> (Awaiting (created s), s1)
              | Some e \<Rightarrow> (Threw e, s1)))"

text \<open>
  A call during whose wait at line 145 no other handler runs: the two parts, one after the
  other.
\<close>

definition initializeClient_main2 :: "world \<Rightarrow> int \<Rightarrow> server \<Rightarrow> uid \<Rightarrow> result \<times> server" where
  "initializeClient_main2 w now s u =
     (case admission_main2 now s u of
        (Reuse r, s1) \<Rightarrow> (Returned r, s1)
      | (Enqueued, s1) \<Rightarrow> (Queued, s1)
      | (Admitted, s1) \<Rightarrow> start_client_main2 w now s1 u)"

text \<open>
  The search of \<open>processQueue\<close>, lines 43-51: the pair \<open>(oldestClient, oldestTime)\<close> after
  the \<open>for\<close> loop over the entries.
\<close>

fun oldest_ready :: "(nat \<Rightarrow> clientState) \<Rightarrow> (uid \<times> nat) list \<Rightarrow> uid option \<times> int \<Rightarrow> uid option \<times> int" where
  "oldest_ready objs [] acc = acc"
| "oldest_ready objs ((u, r) # rest) (oldestClient, oldestTime) =
     (if lastActivity (objs r) < oldestTime \<and> status (objs r) = Ready
      then oldest_ready objs rest (Some u, lastActivity (objs r))
      else oldest_ready objs rest (oldestClient, oldestTime))"

text \<open>
  The capacity test at the head of the \<open>while\<close> body, lines 40-58: below capacity the
  pass goes on; at capacity it goes on after tearing down the candidate, if there is one
  and it has been idle for longer than \<open>INACTIVITY_TIMEOUT\<close>; otherwise it is the \<open>break\<close>.
  \<open>oldestClient\<close> is tested for truthiness, so the empty string counts as no candidate.
\<close>

definition make_room :: "world \<Rightarrow> int \<Rightarrow> server \<Rightarrow> bool \<times> server" where
  "make_room w now s =
     (if length (activeClients s) \<ge> MAX_INSTANCES
      then (case oldest_ready (objects s) (activeClients s) (None, now) of
              (Some oldestClient, oldestTime) \<Rightarrow>
                if oldestClient \<noteq> [] \<and> now - oldestTime > INACTIVITY_TIMEOUT
                then (True, cleanupSession_main2 w s oldestClient)
                else (False, s)
            | (None, oldestTime) \<Rightarrow> (False, s))
      else (True, s))"

text \<open>
  The clock after the capacity test: later by the wait of the teardown, when there was one.
\<close>

definition after_make_room :: "world \<Rightarrow> int \<Rightarrow> server \<Rightarrow> int" where
  "after_make_room w now s =
     (if length (activeClients s) \<ge> MAX_INSTANCES
      then (case oldest_ready (objects s) (activeClients s) (None, now) of
              (Some oldestClient, oldestTime) \<Rightarrow>
                if oldestClient \<noteq> [] \<and> now - oldestTime > INACTIVITY_TIMEOUT
                then after_cleanupSession_main2 w now s oldestClient
                else now
            | (None, oldestTime) \<Rightarrow> now)
      else now)"

text \<open>
  One pass through the body of the \<open>while\<close> loop, lines 39-66, as far as it runs without
  another handler in between: the capacity test, the \<open>shift\<close>, and the first part of
  \<open>initializeClient\<close>. On a reused client the entry is resolved and the loop goes on. The
  pass ends the loop on \<open>break\<close>; it suspends the loop when the call of \<open>initializeClient\<close>
  waits at line 145, and when the call returns the promise of a new queue entry, which
  nothing but this loop could settle. The result comes with the clock at the end of the
  pass.
\<close>

datatype loop = Continue | Stop

definition processQueue_body :: "world \<Rightarrow> int \<Rightarrow> server \<Rightarrow> loop \<times> int \<times> server" where
  "processQueue_body w now s =
     (case make_room w now s of
        (False, s1) \<Rightarrow> (Stop, now, s1\<lparr>isProcessingQueue := False\<rparr>)
      | (True, s1) \<Rightarrow>
          (case CONNECTION_QUEUE s1 of
             [] \<Rightarrow> (Stop, now, s1\<lparr>isProcessingQueue := False\<rparr>)
           | u # rest \<Rightarrow>
               (let t = after_make_room w now s
                in case admission_main2 t (s1\<lparr>CONNECTION_QUEUE := rest\<rparr>) u of
                     (Reuse r, s2) \<Rightarrow> (Continue, t, s2)
                   | (Enqueued, s2) \<Rightarrow> (Stop, t, s2)
                   | (Admitted, s2) \<Rightarrow>
                       (Stop, t, s2\<lparr>admitted := admitted s2 @ [(u, QueueLoop)]\<rparr>))))"

function processQueue_loop :: "world \<Rightarrow> int \<Rightarrow> server \<Rightarrow> server" where
  "processQueue_loop w now s =
     (if CONNECTION_QUEUE s = [] then s\<lparr>isProcessingQueue := False\<rparr>
      else (case processQueue_body w now s of
              (Continue, t, s') \<Rightarrow> processQueue_loop w t s'
            | (Stop, t, s') \<Rightarrow> s'))"
  by pat_completeness auto
termination
  by (relation "measure (\<lambda>(w, now, s). length (CONNECTION_QUEUE s))")
     (auto simp: processQueue_body_def make_room_def admission_main2_def
                 cleanupSession_main2_def set_object_def Let_def
           split: if_splits option.splits prod.splits list.splits admission.splits)

declare processQueue_loop.simps [simp del]

definition processQueue :: "world \<Rightarrow> int \<Rightarrow> server \<Rightarrow> server" where
  "processQueue w now s =
     (if isProcessingQueue s \<or> CONNECTION_QUEUE s = [] then s
      else processQueue_loop w now (s\<lparr>isProcessingQueue := True\<rparr>))"

text \<open>
  The rest of \<open>processQueue\<close> after the promise it awaits has settled: \<open>resolve\<close> or \<open>reject\<close>
  of the queue entry, then the next turn of the loop.
\<close>

definition processQueue_resume :: "world \<Rightarrow> int \<Rightarrow> nat \<Rightarrow> server \<Rightarrow> server" where
  "processQueue_resume w now r s =
     (if awaited s = Some r then processQueue_loop w now (s\<lparr>awaited := None\<rparr>) else s)"

section \<open>HTTP layer\<close>

text \<open>
  \<open>"...".split(' ')\<close>: the pieces between single spaces; an empty string has one empty piece.
\<close>

fun split_on :: "char \<Rightarrow> string \<Rightarrow> string list" where
  "split_on c [] = [[]]"
| "split_on c (x # xs) =
     (if x = c then [] # split_on c xs
      else (case split_on c xs of
              [] \<Rightarrow> [[x]]
            | piece # pieces \<Rightarrow> (x # piece) # pieces))"

text \<open>
  \<open>authMiddleware\<close> (the same in every variant): \<open>req.headers.authorization?.split(' ')[1]\<close>,
  rejected when it is \<open>undefined\<close> or the empty string. The result is \<open>req.uid\<close>, or \<open>None\<close>
  when the middleware answers 401 and does not call \<open>next()\<close>.
\<close>

definition authMiddleware :: "string option \<Rightarrow> uid option" where
  "authMiddleware authorization =
     (case authorization of
        None \<Rightarrow> None
      | Some h \<Rightarrow>
          (case split_on CHR '' '' h of
             scheme # token # rest \<Rightarrow> (if token = [] then None else Some token)
           | _ \<Rightarrow> None))"

text \<open>
  The JSON bodies the handlers send, and what a handler run gives the client: a reply
  with its HTTP status code, or nothing yet because the handler is suspended on the
  promise of a client (\<open>Waiting (Some r)\<close>) or on a queue entry (\<open>Waiting None\<close>).
\<close>

datatype body =
    ErrorBody string "string option"
  | StatusBody status "string option"
  | DisconnectedBody
  | SuccessBody string

datatype reply = Reply nat body | Waiting "nat option"

definition with_auth :: "string option \<Rightarrow> server \<Rightarrow> (uid \<Rightarrow> reply \<times> server) \<Rightarrow> reply \<times> server" where
  "with_auth authorization s handler =
     (case authMiddleware authorization of
        None \<Rightarrow> (Reply 401 (ErrorBody ''Authorization token required'' None), s)
      | Some u \<Rightarrow> handler u)"

text \<open>
  The claim's reading of a request that lacks a bearer token: no \<open>Authorization\<close> header,
  or a header whose text between the first and the second space (the credential after the
  scheme word) is empty. The scheme word itself is not inspected by the server.
\<close>

definition bearer_token :: "string \<Rightarrow> string" where
  "bearer_token h = takeWhile (\<lambda>x. x \<noteq> CHR '' '') (tl (dropWhile (\<lambda>x. x \<noteq> CHR '' '') h))"

definition lacks_token :: "string option \<Rightarrow> bool" where
  "lacks_token authorization =
     (case authorization of None \<Rightarrow> True | Some h \<Rightarrow> bearer_token h = [])"

section \<open>main2.js: driver events, timers and routes\<close>

text \<open>The handlers of lines 181-203; \<open>qr\<close> is the data URL of the scan code.\<close>

definition on_qr :: "nat \<Rightarrow> string \<Rightarrow> server \<Rightarrow> server" where
  "on_qr r qr s = set_object r (\<lambda>c. c\<lparr>qrCode := Some qr, status := Pending\<rparr>) s"

definition on_authenticated :: "nat \<Rightarrow> server \<Rightarrow> server" where
  "on_authenticated r s = set_object r (\<lambda>c. c\<lparr>status := Authenticated, qrCode := None\<rparr>) s"

definition on_ready_main2 :: "world \<Rightarrow> int \<Rightarrow> nat \<Rightarrow> server \<Rightarrow> server" where
  "on_ready_main2 w now r s =
     (let s1 = set_object r (\<lambda>c. c\<lparr>initTimeout := False, status := Ready, lastActivity := now\<rparr>) s;
          s2 = settle Resolved r s1
      in processQueue_resume w now r s2)"

text \<open>
  Lines 206-217: the handler marks its own object and tears down whatever record the
  tenant has. It does not touch the promise and does not clear the timer.
\<close>

definition on_disconnected_main2 :: "world \<Rightarrow> uid \<Rightarrow> nat \<Rightarrow> server \<Rightarrow> server" where
  "on_disconnected_main2 w u r s =
     cleanupSession_main2 w (set_object r (\<lambda>c. c\<lparr>status := Disconnected\<rparr>) s) u"

text \<open>
  \<open>cleanupSession\<close> in the three parts in which it runs when nobody awaits it (lines 238-255).
  The first part runs within the caller: it looks the tenant's record up and, unless the
  record is \<open>ready\<close> or \<open>authenticated\<close>, calls \<open>destroy()\<close> on its client. For a \<open>ready\<close> or
  \<open>authenticated\<close> record \<open>preserveSession\<close> is awaited first, and \<open>destroy()\<close> is called in the
  second part. The last part, after \<open>destroy()\<close> has thrown or after it has resolved and the
  timer of 1000 ms has fired, logs the error, if any, and deletes the tenant's key.
\<close>

definition cleanupSession_begin_main2 :: "server \<Rightarrow> uid \<Rightarrow> server" where
  "cleanupSession_begin_main2 s u =
     (case get_client s u of
        None \<Rightarrow> s
      | Some (r, cs) \<Rightarrow>
          if status cs \<in> {Ready, Authenticated}
          then s\<lparr>closing := closing s @ [(u, r, False)]\<rparr>
          else s\<lparr>destroyed := destroyed s @ [r], closing := closing s @ [(u, r, True)]\<rparr>)"

definition cleanupSession_destroy_main2 :: "uid \<Rightarrow> nat \<Rightarrow> server \<Rightarrow> server" where
  "cleanupSession_destroy_main2 u r s =
     (if (u, r, False) \<in> set (closing s)
      then s\<lparr>destroyed := destroyed s @ [r],
             closing := remove1 (u, r, False) (closing s) @ [(u, r, True)]\<rparr>
      else s)"

definition cleanupSession_end_main2 :: "world \<Rightarrow> uid \<Rightarrow> nat \<Rightarrow> server \<Rightarrow> server" where
  "cleanupSession_end_main2 w u r s =
     (if (u, r, True) \<in> set (closing s)
      then (let s1 = (if destroy_err w r = None then s
                      else s\<lparr>console := console s @ [''Error during client cleanup:'']\<rparr>)
            in s1\<lparr>activeClients := AList.delete u (activeClients s1),
                  closing := remove1 (u, r, True) (closing s1)\<rparr>)
      else s)"

text \<open>
  The timer of lines 176-179, which fires unless \<open>ready\<close> cleared it: it rejects the promise
  and calls \<open>cleanupSession\<close> without awaiting it. The first part of the teardown runs within
  the call; then the timer's handler is done and the waiting \<open>processQueue\<close> continues on the
  rejection, before the teardown reaches its \<open>delete\<close>.
\<close>

definition on_initTimeout_main2 :: "world \<Rightarrow> int \<Rightarrow> uid \<Rightarrow> nat \<Rightarrow> server \<Rightarrow> server" where
  "on_initTimeout_main2 w now u r s =
     (if \<not> initTimeout (objects s r) then s
      else (let s1 = set_object r (\<lambda>c. c\<lparr>initTimeout := False\<rparr>) s;
                s2 = settle (Rejected ''Client initialization timeout'') r s1;
                s3 = cleanupSession_begin_main2 s2 u
            in processQueue_resume w now r s3))"

text \<open>The inactivity sweep of lines 420-430, over the entries in insertion order.\<close>

fun sweep_main2 :: "world \<Rightarrow> int \<Rightarrow> (uid \<times> nat) list \<Rightarrow> server \<Rightarrow> server" where
  "sweep_main2 w now [] s = s"
| "sweep_main2 w now ((u, r) # entries) s =
     sweep_main2 w now entries
       (if now - lastActivity (objects s r) > INACTIVITY_TIMEOUT
        then cleanupSession_main2 w s u else s)"

definition inactivity_tick_main2 :: "world \<Rightarrow> int \<Rightarrow> server \<Rightarrow> server" where
  "inactivity_tick_main2 w now s = sweep_main2 w now (activeClients s) s"

text \<open>\<open>POST /init\<close>, lines 398-418, with the whole call of \<open>initializeClient\<close>.\<close>

definition post_init_main2 :: "world \<Rightarrow> int \<Rightarrow> string option \<Rightarrow> server \<Rightarrow> reply \<times> server" where
  "post_init_main2 w now authorization s =
     with_auth authorization s (\<lambda>u.
       let start =
             (case initializeClient_main2 w now s u of
                (Returned r, s1) \<Rightarrow>
                  (Reply 200 (StatusBody (status (objects s1 r)) (qrCode (objects s1 r))), s1)
              | (Awaiting r, s1) \<Rightarrow> (Waiting (Some r), s1)
              | (Queued, s1) \<Rightarrow> (Waiting None, s1)
              | (Threw e, s1) \<Rightarrow>
                  (Reply 500 (ErrorBody ''Failed to initialize WhatsApp client'' (Some e)), s1))
       in case get_client s u of
            None \<Rightarrow> start
          | Some (r, clientState) \<Rightarrow>
              if status clientState = Disconnected then start
              else (Reply 200 (StatusBody (status clientState) (qrCode clientState)), s))"

text \<open>
  \<open>POST /send-message\<close>, lines 258-290. The \<open>catch\<close> block tears the tenant's record down.
  \<open>send_to_client\<close> is the handler from the \<open>status\<close> test on, which runs at once on a reused
  client and later, when the promise resolves, on a started one. \<open>number\<close> is
  \<open>req.body.number\<close>; \<open>number.includes\<close> throws when it is missing.
\<close>

definition send_failed_main2 :: "world \<Rightarrow> server \<Rightarrow> uid \<Rightarrow> string \<Rightarrow> reply \<times> server" where
  "send_failed_main2 w s u e =
     (Reply 500 (ErrorBody ''Failed to send message'' (Some e)), cleanupSession_main2 w s u)"

definition send_to_client_main2 :: "world \<Rightarrow> int \<Rightarrow> server \<Rightarrow> uid \<Rightarrow> nat \<Rightarrow> reply \<times> server" where
  "send_to_client_main2 w now s u r =
     (if status (objects s r) \<noteq> Ready then send_failed_main2 w s u ''Client not ready''
      else (case sendMessage_err w r of
              Some e \<Rightarrow> send_failed_main2 w s u e
            | None \<Rightarrow>
                (Reply 200 (SuccessBody ''Message sent successfully''),
                 set_object r (\<lambda>c. c\<lparr>lastActivity := now\<rparr>) s)))"

definition post_send_message_main2 ::
  "world \<Rightarrow> int \<Rightarrow> string option \<Rightarrow> string option \<Rightarrow> server \<Rightarrow> reply \<times> server" where
  "post_send_message_main2 w now authorization number s =
     with_auth authorization s (\<lambda>u.
       case number of
         None \<Rightarrow> send_failed_main2 w s u ''Cannot read properties of undefined''
       | Some n \<Rightarrow>
           (case initializeClient_main2 w now s u of
              (Returned r, s1) \<Rightarrow> send_to_client_main2 w now s1 u r
            | (Awaiting r, s1) \<Rightarrow> (Waiting (Some r), s1)
            | (Queued, s1) \<Rightarrow> (Waiting None, s1)
            | (Threw e, s1) \<Rightarrow> send_failed_main2 w s1 u e))"

text \<open>
  \<open>POST /disconnect\<close>, lines 377-396: \<open>destroy()\<close> is called before \<open>cleanupSession\<close>, inside
  the \<open>try\<close>; when it throws, the handler answers 500 and \<open>cleanupSession\<close> does not run.
\<close>

definition post_disconnect_main2 :: "world \<Rightarrow> string option \<Rightarrow> server \<Rightarrow> reply \<times> server" where
  "post_disconnect_main2 w authorization s =
     with_auth authorization s (\<lambda>u.
       case get_client s u of
         None \<Rightarrow> (Reply 200 DisconnectedBody, s)
       | Some (r, clientState) \<Rightarrow>
           (let s1 = s\<lparr>destroyed := destroyed s @ [r]\<rparr>
            in case destroy_err w r of
                 Some e \<Rightarrow> (Reply 500 (ErrorBody ''Failed to disconnect'' (Some e)), s1)
               | None \<Rightarrow> (Reply 200 DisconnectedBody, cleanupSession_main2 w s1 u)))"

text \<open>
  The routes \<open>/init\<close> and \<open>/send-message\<close> as far as they run when the request arrives: up to
  the reply, or up to the point where the handler is suspended, on a queue entry or in
  \<open>await fs.ensureDir\<close> (both \<open>Waiting None\<close>; the second is entered in \<open>admitted\<close>).
\<close>

definition post_init_begin_main2 :: "int \<Rightarrow> string option \<Rightarrow> server \<Rightarrow> reply \<times> server" where
  "post_init_begin_main2 now authorization s =
     with_auth authorization s (\<lambda>u.
       let start =
             (case admission_main2 now s u of
                (Reuse r, s1) \<Rightarrow>
                  (Reply 200 (StatusBody (status (objects s1 r)) (qrCode (objects s1 r))), s1)
              | (Enqueued, s1) \<Rightarrow> (Waiting None, s1)
              | (Admitted, s1) \<Rightarrow>
                  (Waiting None, s1\<lparr>admitted := admitted s1 @ [(u, InitRoute)]\<rparr>))
       in case get_client s u of
            None \<Rightarrow> start
          | Some (r, clientState) \<Rightarrow>
              if status clientState = Disconnected then start
              else (Reply 200 (StatusBody (status clientState) (qrCode clientState)), s))"

definition post_send_message_begin_main2 ::
  "world \<Rightarrow> int \<Rightarrow> string option \<Rightarrow> string option \<Rightarrow> server \<Rightarrow> reply \<times> server" where
  "post_send_message_begin_main2 w now authorization number s =
     with_auth authorization s (\<lambda>u.
       case number of
         None \<Rightarrow> send_failed_main2 w s u ''Cannot read properties of undefined''
       | Some n \<Rightarrow>
           (case admission_main2 now s u of
              (Reuse r, s1) \<Rightarrow> send_to_client_main2 w now s1 u r
            | (Enqueued, s1) \<Rightarrow> (Waiting None, s1)
            | (Admitted, s1) \<Rightarrow>
                (Waiting None, s1\<lparr>admitted := admitted s1 @ [(u, SendRoute)]\<rparr>)))"

text \<open>
  \<open>fs.ensureDir\<close> has resolved for a call of \<open>initializeClient\<close> that waited at line 145: the
  second part of the call runs, and then its caller as far as it gets. When the call has
  thrown, \<open>/init\<close> answers 500, \<open>/send-message\<close> tears the tenant's record down in its \<open>catch\<close>
  block, and \<open>processQueue\<close> rejects the queue entry and takes the next turn of its loop.
  Otherwise the caller waits for the promise of the new client.
\<close>

definition initializeClient_resume_main2 :: "world \<Rightarrow> int \<Rightarrow> uid \<Rightarrow> caller \<Rightarrow> server \<Rightarrow> server" where
  "initializeClient_resume_main2 w now u c s =
     (if (u, c) \<notin> set (admitted s) then s
      else (case start_client_main2 w now (s\<lparr>admitted := remove1 (u, c) (admitted s)\<rparr>) u of
              (Threw e, s1) \<Rightarrow>
                (case c of
                   InitRoute \<Rightarrow> s1
                 | SendRoute \<Rightarrow> snd (send_failed_main2 w s1 u e)
                 | QueueLoop \<Rightarrow> processQueue_loop w now s1)
            | (Awaiting r, s1) \<Rightarrow>
                (case c of
                   QueueLoop \<Rightarrow> s1\<lparr>awaited := Some r\<rparr>
                 | _ \<Rightarrow> s1)
            | (_, s1) \<Rightarrow> s1))"

text \<open>
  Everything that can happen to the server of \<open>main2.js\<close>: a request on a route; the
  continuation of a call of \<open>initializeClient\<close> that waited at line 145; the continuation of a
  suspended \<open>/send-message\<close> once the promise it awaits has resolved or rejected; an event of
  the driver on the client \<open>r\<close> started for a tenant; the firing of a timer; the later parts
  of a teardown that a timer has started. Each step comes with the behaviour of the outside
  world during the step and the clock reading.
\<close>

datatype event_main2 =
    PostInit "string option"
  | PostSendMessage "string option" "string option"
  | EnsureDirResolved uid caller
  | SendResolved uid nat
  | SendRejected uid string
  | PostDisconnect "string option"
  | QrEvent nat string
  | AuthenticatedEvent nat
  | ReadyEvent nat
  | DisconnectedEvent uid nat
  | InitTimeout uid nat
  | TeardownDestroys uid nat
  | TeardownEnds uid nat
  | QueueTick
  | InactivityTick

fun step_main2 :: "server \<Rightarrow> world \<times> int \<times> event_main2 \<Rightarrow> server" where
  "step_main2 s (w, now, PostInit authorization) = snd (post_init_begin_main2 now authorization s)"
| "step_main2 s (w, now, PostSendMessage authorization number) =
     snd (post_send_message_begin_main2 w now authorization number s)"
| "step_main2 s (w, now, EnsureDirResolved u c) = initializeClient_resume_main2 w now u c s"
| "step_main2 s (w, now, SendResolved u r) = snd (send_to_client_main2 w now s u r)"
| "step_main2 s (w, now, SendRejected u e) = snd (send_failed_main2 w s u e)"
| "step_main2 s (w, now, PostDisconnect authorization) = snd (post_disconnect_main2 w authorization s)"
| "step_main2 s (w, now, QrEvent r qr) = on_qr r qr s"
| "step_main2 s (w, now, AuthenticatedEvent r) = on_authenticated r s"
| "step_main2 s (w, now, ReadyEvent r) = on_ready_main2 w now r s"
| "step_main2 s (w, now, DisconnectedEvent u r) = on_disconnected_main2 w u r s"
| "step_main2 s (w, now, InitTimeout u r) = on_initTimeout_main2 w now u r s"
| "step_main2 s (w, now, TeardownDestroys u r) = cleanupSession_destroy_main2 u r s"
| "step_main2 s (w, now, TeardownEnds u r) = cleanupSession_end_main2 w u r s"
| "step_main2 s (w, now, QueueTick) = processQueue w now s"
| "step_main2 s (w, now, InactivityTick) = inactivity_tick_main2 w now s"

definition run_main2 :: "server \<Rightarrow> (world \<times> int \<times> event_main2) list \<Rightarrow> server" where
  "run_main2 s steps = foldl step_main2 s steps"


section \<open>The evicting server, part_000\<close>

text \<open>
  The search of lines 103-111: the oldest client of any status, among those whose
  \<open>lastActivity\<close> lies before the clock reading.
\<close>

fun oldest_p0 :: "(nat \<Rightarrow> clientState) \<Rightarrow> (uid \<times> nat) list \<Rightarrow> uid option \<times> int \<Rightarrow> uid option \<times> int" where
  "oldest_p0 objs [] acc = acc"
| "oldest_p0 objs ((clientUid, r) # rest) (oldestClient, oldestTime) =
     (if lastActivity (objs r) < oldestTime
      then oldest_p0 objs rest (Some clientUid, lastActivity (objs r))
      else oldest_p0 objs rest (oldestClient, oldestTime))"

text \<open>
  The instance limit, lines 100-116: at capacity the oldest client found is torn down.
  \<open>oldestClient\<close> is tested for truthiness. The result is the clock after the teardown, and
  the registry.
\<close>

definition evict_oldest_p0 :: "world \<Rightarrow> int \<Rightarrow> server \<Rightarrow> int \<times> server" where
  "evict_oldest_p0 w now s =
     (if length (activeClients s) \<ge> MAX_INSTANCES
      then (case oldest_p0 (objects s) (activeClients s) (None, now) of
              (Some oldestClient, oldestTime) \<Rightarrow>
                if oldestClient \<noteq> []
                then (after_cleanupSession_p0 w now s oldestClient, cleanupSession_p0 w s oldestClient)
                else (now, s)
            | (None, oldestTime) \<Rightarrow> (now, s))
      else (now, s))"

text \<open>
  Lines 118-209: the client is built, stored and started, and the call waits for its
  promise. \<open>sessionExists\<close> is the answer of \<open>fs.pathExists\<close>.
\<close>

definition start_client_p0 :: "world \<Rightarrow> int \<Rightarrow> bool \<Rightarrow> server \<Rightarrow> uid \<Rightarrow> result \<times> server" where
  "start_client_p0 w now sessionExists s u =
     (case construct_err w (created s) of
        Some e \<Rightarrow> (Threw e, s)
      | None \<Rightarrow>
          (let s1 = store_client u
                      (new_clientState (if sessionExists then Resuming else Initializing)
                         now (Some Unsettled) True) s
           in case initialize_err w (created s) of
                None \<Rightarrow> (Awaiting (created s), s1)
              | Some e \<Rightarrow> (Threw e, s1)))"

text \<open>Lines 100-209: the instance limit, then the new client, built at the clock of that time.\<close>

definition admit_p0 :: "world \<Rightarrow> int \<Rightarrow> bool \<Rightarrow> server \<Rightarrow> uid \<Rightarrow> result \<times> int \<times> server" where
  "admit_p0 w now sessionExists s u =
     (case evict_oldest_p0 w now s of
        (t, s1) \<Rightarrow> (case start_client_p0 w t sessionExists s1 u of (res, s2) \<Rightarrow> (res, t, s2)))"

text \<open>
  The \<open>try\<close> block of \<open>initializeClient\<close>, lines 85-209, up to the \<open>await\<close> on the promise: a
  ready client is reused; a record left in state \<open>disconnected\<close> or \<open>error\<close> is cleaned up
  first; any other record is left in place and replaced by the new one. The result comes
  with the clock at the end of the block.
\<close>

definition try_initializeClient_p0 ::
  "world \<Rightarrow> int \<Rightarrow> bool \<Rightarrow> server \<Rightarrow> uid \<Rightarrow> result \<times> int \<times> server" where
  "try_initializeClient_p0 w now sessionExists s u =
     (case get_client s u of
        None \<Rightarrow> admit_p0 w now sessionExists s u
      | Some (r, existingClient) \<Rightarrow>
          if status existingClient = Ready then (Returned r, now, s)
          else if status existingClient \<in> {Disconnected, Error}
          then admit_p0 w (after_cleanupSession_p0 w now s u) sessionExists
                 (cleanupSession_p0 w s u) u
          else admit_p0 w now sessionExists s u)"

text \<open>
  \<open>initializeClient(uid, retryCount)\<close> with its \<open>catch\<close> block, lines 211-223: the error is
  logged and the record is deleted; while \<open>retryCount < MAX_RETRIES\<close> the call waits for a
  timer of 2000 ms and is repeated, at the clock of that time. The first attempt has created
  the session directory, so a retry finds it.
\<close>

function initializeClient_p0 :: "world \<Rightarrow> int \<Rightarrow> bool \<Rightarrow> server \<Rightarrow> uid \<Rightarrow> nat \<Rightarrow> result \<times> server" where
  "initializeClient_p0 w now sessionExists s u retryCount =
     (case try_initializeClient_p0 w now sessionExists s u of
        (Threw e, t, s1) \<Rightarrow>
          (let s2 = s1\<lparr>console := console s1 @ [init_error_line u],
                      activeClients := AList.delete u (activeClients s1)\<rparr>
           in if retryCount < MAX_RETRIES
              then initializeClient_p0 w (pause w RETRY_DELAY t) True
                     (s2\<lparr>retry_waits := retry_waits s2 @ [RETRY_DELAY]\<rparr>) u (retryCount + 1)
              else (Threw e, s2))
      | (Returned r, t, s1) \<Rightarrow> (Returned r, s1)
      | (Awaiting r, t, s1) \<Rightarrow> (Awaiting r, s1)
      | (Queued, t, s1) \<Rightarrow> (Queued, s1))"
  by pat_completeness auto
termination
  by (relation "measure (\<lambda>(w, now, sessionExists, s, u, retryCount). MAX_RETRIES - retryCount)") auto

declare initializeClient_p0.simps [simp del]

text \<open>
  The handlers of lines 185-198. \<open>disconnected\<close> clears the timer and deletes the tenant's
  entry; it calls neither \<open>readyReject\<close> nor \<open>cleanupSession\<close>.
\<close>

definition on_ready_p0 :: "int \<Rightarrow> nat \<Rightarrow> server \<Rightarrow> server" where
  "on_ready_p0 now r s =
     settle Resolved r
       (set_object r (\<lambda>c. c\<lparr>status := Ready, lastActivity := now, initTimeout := False\<rparr>) s)"

definition on_disconnected_p0 :: "uid \<Rightarrow> nat \<Rightarrow> server \<Rightarrow> server" where
  "on_disconnected_p0 u r s =
     (let s1 = set_object r (\<lambda>c. c\<lparr>status := Disconnected, initTimeout := False\<rparr>) s
      in s1\<lparr>activeClients := AList.delete u (activeClients s1)\<rparr>)"



text \<open>\<open>POST /init\<close>, lines 302-322.\<close>

definition post_init_p0 :: "world \<Rightarrow> int \<Rightarrow> string option \<Rightarrow> server \<Rightarrow> reply \<times> server" where
  "post_init_p0 w now authorization s =
     with_auth authorization s (\<lambda>u.
       let start =
             (case initializeClient_p0 w now (pathExists w u) s u 0 of
                (Returned r, s1) \<Rightarrow>
                  (Reply 200 (StatusBody (status (objects s1 r)) (qrCode (objects s1 r))), s1)
              | (Awaiting r, s1) \<Rightarrow> (Waiting (Some r), s1)
              | (Queued, s1) \<Rightarrow> (Waiting None, s1)
              | (Threw e, s1) \<Rightarrow>
                  (Reply 500 (ErrorBody ''Failed to initialize WhatsApp client'' (Some e)), s1))
       in case get_client s u of
            None \<Rightarrow> start
          | Some (r, clientState) \<Rightarrow>
              if status clientState = Disconnected then start
              else (Reply 200 (StatusBody (status clientState) (qrCode clientState)), s))"

text \<open>\<open>POST /send-message\<close>, lines 227-262.\<close>

definition send_failed_p0 :: "world \<Rightarrow> server \<Rightarrow> uid \<Rightarrow> string \<Rightarrow> reply \<times> server" where
  "send_failed_p0 w s u e =
     (Reply 500 (ErrorBody ''Failed to send message'' (Some e)), cleanupSession_p0 w s u)"

definition send_to_client_p0 :: "world \<Rightarrow> int \<Rightarrow> server \<Rightarrow> uid \<Rightarrow> nat \<Rightarrow> reply \<times> server" where
  "send_to_client_p0 w now s u r =
     (if status (objects s r) \<noteq> Ready then send_failed_p0 w s u ''Client not ready''
      else (case sendMessage_err w r of
              Some e \<Rightarrow> send_failed_p0 w s u e
            | None \<Rightarrow>
                (Reply 200 (SuccessBody ''Message sent successfully''),
                 set_object r (\<lambda>c. c\<lparr>lastActivity := now\<rparr>) s)))"

definition post_send_message_p0 ::
  "world \<Rightarrow> int \<Rightarrow> string option \<Rightarrow> string option \<Rightarrow> server \<Rightarrow> reply \<times> server" where
  "post_send_message_p0 w now authorization number s =
     with_auth authorization s (\<lambda>u.
       case number of
         None \<Rightarrow> send_failed_p0 w s u ''Cannot read properties of undefined''
       | Some n \<Rightarrow>
           (case initializeClient_p0 w now (pathExists w u) s u 0 of
              (Returned r, s1) \<Rightarrow> send_to_client_p0 w now s1 u r
            | (Awaiting r, s1) \<Rightarrow> (Waiting (Some r), s1)
            | (Queued, s1) \<Rightarrow> (Waiting None, s1)
            | (Threw e, s1) \<Rightarrow> send_failed_p0 w s1 u e))"

text \<open>\<open>POST /disconnect\<close>, lines 281-300.\<close>

definition post_disconnect_p0 :: "world \<Rightarrow> string option \<Rightarrow> server \<Rightarrow> reply \<times> server" where
  "post_disconnect_p0 w authorization s =
     with_auth authorization s (\<lambda>u.
       case get_client s u of
         None \<Rightarrow> (Reply 200 DisconnectedBody, s)
       | Some (r, clientState) \<Rightarrow>
           (let s1 = s\<lparr>destroyed := destroyed s @ [r]\<rparr>
            in case destroy_err w r of
                 Some e \<Rightarrow> (Reply 500 (ErrorBody ''Failed to disconnect'' (Some e)), s1)
               | None \<Rightarrow> (Reply 200 DisconnectedBody, cleanupSession_p0 w s1 u)))"

section \<open>The pooled server, part_001\<close>

text \<open>\<open>loadSession\<close>, lines 53-66: the saved session file, when it exists and can be read.\<close>

definition loadSession :: "world \<Rightarrow> server \<Rightarrow> uid \<Rightarrow> (int \<times> bool) option \<times> server" where
  "loadSession w s u =
     (case readJson w u of
        None \<Rightarrow> (None, s)
      | Some sessionData \<Rightarrow>
          (Some sessionData, s\<lparr>userSessions := AList.update u sessionData (userSessions s)\<rparr>))"

text \<open>
  \<open>getClientInstance\<close>, lines 69-88. \<open>minUsers\<close> starts at \<open>Infinity\<close> (here \<open>None\<close>). An
  instance is a fresh \<open>Symbol\<close>; instances are never removed from the pool, so the size of
  the pool names the next one.
\<close>

fun least_busy :: "(nat \<times> uid list) list \<Rightarrow> nat option \<times> nat option \<Rightarrow> nat option \<times> nat option" where
  "least_busy [] acc = acc"
| "least_busy ((i, users) # rest) (selectedInstance, minUsers) =
     (if (case minUsers of None \<Rightarrow> True | Some m \<Rightarrow> length users < m)
      then least_busy rest (Some i, Some (length users))
      else least_busy rest (selectedInstance, minUsers))"

definition getClientInstance :: "server \<Rightarrow> nat option \<times> server" where
  "getClientInstance s =
     (case fst (least_busy (clientPool s) (None, None)) of
        Some i \<Rightarrow> (Some i, s)
      | None \<Rightarrow>
          if length (clientPool s) < MAX_INSTANCES
          then (Some (length (clientPool s)),
                s\<lparr>clientPool := clientPool s @ [(length (clientPool s), [])]\<rparr>)
          else (None, s))"

text \<open>The \<open>try\<close> block of \<open>initializeClient\<close>, lines 123-227.\<close>

definition try_initializeClient_p1 :: "world \<Rightarrow> int \<Rightarrow> server \<Rightarrow> uid \<Rightarrow> result \<times> server" where
  "try_initializeClient_p1 w now s u =
     (let start =
            (case loadSession w s u of
               (savedSession, s1) \<Rightarrow>
                 (case getClientInstance s1 of
                    (None, s2) \<Rightarrow> (Threw ''No available client instances'', s2)
                  | (Some i, s2) \<Rightarrow>
                      (case construct_err w (created s2) of
                         Some e \<Rightarrow> (Threw e, s2)
                       | None \<Rightarrow>
                           (let authenticated =
                                  (case savedSession of None \<Rightarrow> False | Some (t, a) \<Rightarrow> a);
                                s3 = store_client u
                                       ((new_clientState
                                           (if authenticated then Resuming else Initializing)
                                           now (Some Unsettled) True)\<lparr>pool_instance := Some i\<rparr>) s2
                            in case initialize_err w (created s2) of
                                 None \<Rightarrow> (Awaiting (created s2), s3)
                               | Some e \<Rightarrow> (Threw e, s3)))))
      in case get_client s u of
           None \<Rightarrow> start
         | Some (r, existingClient) \<Rightarrow>
             if status existingClient = Ready then (Returned r, s) else start)"

text \<open>
  \<open>initializeClient(uid, retryCount)\<close> with its \<open>catch\<close> block, lines 229-240; the \<open>try\<close> block
  waits for no timer, so the retry reads the clock one timer later than the attempt did.
\<close>

function initializeClient_p1 :: "world \<Rightarrow> int \<Rightarrow> server \<Rightarrow> uid \<Rightarrow> nat \<Rightarrow> result \<times> server" where
  "initializeClient_p1 w now s u retryCount =
     (case try_initializeClient_p1 w now s u of
        (Threw e, s1) \<Rightarrow>
          (let s2 = s1\<lparr>console := console s1 @ [init_error_line u],
                      activeClients := AList.delete u (activeClients s1)\<rparr>
           in if retryCount < MAX_RETRIES
              then initializeClient_p1 w (pause w RETRY_DELAY now)
                     (s2\<lparr>retry_waits := retry_waits s2 @ [RETRY_DELAY]\<rparr>) u (retryCount + 1)
              else (Threw e, s2))
      | (Returned r, s1) \<Rightarrow> (Returned r, s1)
      | (Awaiting r, s1) \<Rightarrow> (Awaiting r, s1)
      | (Queued, s1) \<Rightarrow> (Queued, s1))"
  by pat_completeness auto
termination
  by (relation "measure (\<lambda>(w, now, s, u, retryCount). MAX_RETRIES - retryCount)") auto

declare initializeClient_p1.simps [simp del]

text \<open>
  \<open>POST /disconnect\<close>, lines 297-310. \<open>cleanupSession\<close> catches every error of its own, so
  the \<open>catch\<close> of the route is never entered.
\<close>

definition post_disconnect_p1 :: "world \<Rightarrow> int \<Rightarrow> string option \<Rightarrow> server \<Rightarrow> reply \<times> server" where
  "post_disconnect_p1 w now authorization s =
     with_auth authorization s (\<lambda>u. (Reply 200 DisconnectedBody, cleanupSession_p1 w now s u))"

section \<open>The basic server, part_002\<close>

text \<open>
  \<open>initializeClient\<close>, lines 107-181: no lookup and no capacity test. The client state is
  returned as soon as \<open>client.initialize()\<close> resolves; when it throws, the error is logged,
  the record is cleaned up and the error thrown on. \<open>new Client\<close> is outside the \<open>try\<close>. There
  is no promise and no timer.
\<close>

definition initializeClient_p2 :: "world \<Rightarrow> int \<Rightarrow> server \<Rightarrow> uid \<Rightarrow> result \<times> server" where
  "initializeClient_p2 w now s u =
     (case construct_err w (created s) of
        Some e \<Rightarrow> (Threw e, s)
      | None \<Rightarrow>
          (let s1 = store_client u (new_clientState Initializing now None False) s
           in case initialize_err w (created s) of
                None \<Rightarrow> (Returned (created s), s1)
              | Some e \<Rightarrow>
                  (Threw e,
                   cleanupSession_p2 w
                     (s1\<lparr>console := console s1 @ [init_error_line u]\<rparr>) u)))"

definition on_ready_p2 :: "int \<Rightarrow> nat \<Rightarrow> server \<Rightarrow> server" where
  "on_ready_p2 now r s = set_object r (\<lambda>c. c\<lparr>status := Ready, lastActivity := now\<rparr>) s"

definition on_disconnected_p2 :: "world \<Rightarrow> uid \<Rightarrow> nat \<Rightarrow> server \<Rightarrow> server" where
  "on_disconnected_p2 w u r s =
     cleanupSession_p2 w (set_object r (\<lambda>c. c\<lparr>status := Disconnected\<rparr>) s) u"

text \<open>\<open>POST /init\<close>, lines 43-78.\<close>

definition post_init_p2 :: "world \<Rightarrow> int \<Rightarrow> string option \<Rightarrow> server \<Rightarrow> reply \<times> server" where
  "post_init_p2 w now authorization s =
     with_auth authorization s (\<lambda>u.
       let start =
             (case initializeClient_p2 w now s u of
                (Returned r, s1) \<Rightarrow>
                  (Reply 200 (StatusBody (status (objects s1 r)) (qrCode (objects s1 r))), s1)
              | (Awaiting r, s1) \<Rightarrow> (Waiting (Some r), s1)
              | (Queued, s1) \<Rightarrow> (Waiting None, s1)
              | (Threw e, s1) \<Rightarrow>
                  (Reply 500 (ErrorBody ''Failed to initialize WhatsApp client'' (Some e)), s1))
       in case get_client s u of
            None \<Rightarrow> start
          | Some (r, clientState) \<Rightarrow>
              if status clientState = Disconnected then start
              else (Reply 200 (StatusBody (status clientState) (qrCode clientState)), s))"

text \<open>
  \<open>POST /send-message\<close>, lines 221-257. \<open>number\<close> and \<open>message\<close> are the fields of the request
  body; a missing field and the empty string are both falsy. The route reads the map and
  never calls \<open>initializeClient\<close>.
\<close>

definition post_send_message_p2 ::
  "world \<Rightarrow> int \<Rightarrow> string option \<Rightarrow> string option \<Rightarrow> string option \<Rightarrow> server \<Rightarrow> reply \<times> server" where
  "post_send_message_p2 w now authorization number message s =
     with_auth authorization s (\<lambda>u.
       if number \<in> {None, Some []} \<or> message \<in> {None, Some []}
       then (Reply 400 (ErrorBody ''Phone number and message are required'' None), s)
       else (case get_client s u of
               None \<Rightarrow>
                 (Reply 400 (ErrorBody ''WhatsApp client not ready. Please initialize first.'' None), s)
             | Some (r, clientState) \<Rightarrow>
                 if status clientState \<noteq> Ready
                 then (Reply 400 (ErrorBody ''WhatsApp client not ready. Please initialize first.'' None), s)
                 else (case sendMessage_err w r of
                         Some e \<Rightarrow> (Reply 500 (ErrorBody ''Failed to send message'' (Some e)), s)
                       | None \<Rightarrow>
                           (Reply 200 (SuccessBody ''Message sent successfully''),
                            set_object r (\<lambda>c. c\<lparr>lastActivity := now\<rparr>) s))))"

section \<open>Sample worlds and registries\<close>

text \<open>
  A driver whose \<open>initialize()\<close> always throws, and one whose \<open>destroy()\<close> always throws.
\<close>

definition failing :: world where
  "failing = calm\<lparr>initialize_err := (\<lambda>r. Some ''Failed to launch the browser process'')\<rparr>"

definition stuck :: world where
  "stuck = calm\<lparr>destroy_err := (\<lambda>r. Some ''Target closed'')\<rparr>"

text \<open>A driver for which \<open>new Client(...)\<close> always throws.\<close>

definition unbuildable :: world where
  "unbuildable = calm\<lparr>construct_err := (\<lambda>r. Some ''Invalid clientId'')\<rparr>"

text \<open>A file system on which the session directory cannot be removed.\<close>

definition locked :: world where
  "locked = calm\<lparr>remove_err := Some ''EBUSY: resource busy or locked''\<rparr>"

text \<open>
  The registry after tenant \<open>a\<close> has asked for a session at time 0 and the handshake has
  not finished, in three variants; and the registry of \<open>main2.js\<close> after the client of
  \<open>a\<close> has become ready at time 1000.
\<close>

definition handshaking_main2 :: server where
  "handshaking_main2 = snd (initializeClient_main2 calm 0 empty_server ''a'')"

definition handshaking_p0 :: server where
  "handshaking_p0 = snd (initializeClient_p0 calm 0 False empty_server ''a'' 0)"

definition handshaking_p2 :: server where
  "handshaking_p2 = snd (initializeClient_p2 calm 0 empty_server ''a'')"

definition serving_main2 :: server where
  "serving_main2 = on_ready_main2 calm 1000 0 handshaking_main2"



text \<open>
  A full pool of \<open>part_000\<close> in which the tenants \<open>a\<close> and \<open>b\<close> both asked for their session at
  time 7.
\<close>

definition paired_p0 :: server where
  "paired_p0 =
     snd (initializeClient_p0 calm 7 False
            (snd (initializeClient_p0 calm 7 False empty_server ''a'' 0)) ''b'' 0)"





section \<open>The capacity bound\<close>



text \<open>
  What a step can do to the slots. (\<open>shrinks\<close>) The registry has not grown and no call has
  passed the capacity test. (\<open>admits\<close>) The registry has not grown and at most one call has
  passed the capacity test, on a registry with fewer than \<open>MAX_INSTANCES\<close> records.
\<close>

definition shrinks :: "server \<Rightarrow> server \<Rightarrow> bool" where
  "shrinks s s' \<longleftrightarrow>
     length (activeClients s') \<le> length (activeClients s) \<and> admitted s' = admitted s"


section \<open>Facts about the registry\<close>


lemma get_client_None: "get_client s u = None \<longleftrightarrow> u \<notin> fst ` set (activeClients s)"
proof -
  have "get_client s u = None \<longleftrightarrow> map_of (activeClients s) u = None"
    by (simp add: get_client_def split: option.splits)
  then show ?thesis
    by (simp add: map_of_eq_None_iff)
qed

lemma keys_cleanupSession_main2:
  "map fst (activeClients (cleanupSession_main2 w s u)) = removeAll u (map fst (activeClients s))"
  by (auto simp: cleanupSession_main2_def Let_def AList.delete_keys get_client_None
           split: option.splits)

lemma keys_cleanupSession_p0:
  "map fst (activeClients (cleanupSession_p0 w s u)) = removeAll u (map fst (activeClients s))"
  by (auto simp: cleanupSession_p0_def Let_def AList.delete_keys split: option.splits)

lemma activeClients_saveSession: "activeClients (saveSession w now s u) = activeClients s"
  by (simp add: saveSession_def split: option.splits)

lemma keys_cleanupSession_p1:
  "map fst (activeClients (cleanupSession_p1 w now s u)) = removeAll u (map fst (activeClients s))"
  by (auto simp: cleanupSession_p1_def Let_def AList.delete_keys get_client_None
           activeClients_saveSession split: option.splits)

lemma activeClients_set_object [simp]: "activeClients (set_object r f s) = activeClients s"
  by (simp add: set_object_def)

lemma activeClients_settle [simp]: "activeClients (settle p r s) = activeClients s"
  by (simp add: settle_def)

lemma admitted_set_object [simp]: "admitted (set_object r f s) = admitted s"
  by (simp add: set_object_def)

lemma admitted_settle [simp]: "admitted (settle p r s) = admitted s"
  by (simp add: settle_def)

lemma created_set_object [simp]: "created (set_object r f s) = created s"
  by (simp add: set_object_def)

lemma created_settle [simp]: "created (settle p r s) = created s"
  by (simp add: settle_def)


lemma length_cleanupSession_main2:
  "length (activeClients (cleanupSession_main2 w s u)) \<le> length (activeClients s)"
  by (auto simp: cleanupSession_main2_def Let_def AList.length_delete_le split: option.splits)


subsection \<open>The slots\<close>

lemma shrinks_refl [simp]: "shrinks s s"
  by (simp add: shrinks_def)






lemma shrinks_fields [simp]:
  "shrinks s (set_object r f s)"
  "shrinks s (settle p r s)"
  "shrinks s (s\<lparr>destroyed := d\<rparr>)"
  "shrinks s (s\<lparr>awaited := a\<rparr>)"
  "shrinks s (s\<lparr>isProcessingQueue := b\<rparr>)"
  "shrinks s (s\<lparr>CONNECTION_QUEUE := q\<rparr>)"
  "shrinks s (s\<lparr>closing := k\<rparr>)"
  "shrinks s (s\<lparr>console := l\<rparr>)"
  by (simp_all add: shrinks_def)

lemma cleanupSession_main2_fields:
  "objects (cleanupSession_main2 w s u) = objects s"
  "CONNECTION_QUEUE (cleanupSession_main2 w s u) = CONNECTION_QUEUE s"
  "created (cleanupSession_main2 w s u) = created s"
  "admitted (cleanupSession_main2 w s u) = admitted s"
  "destroyed (cleanupSession_main2 w s u)
     = destroyed s @ (case get_client s u of None \<Rightarrow> [] | Some (r, cs) \<Rightarrow> [r])"
  by (simp_all add: cleanupSession_main2_def Let_def split: option.splits)

lemma shrinks_cleanupSession_main2: "shrinks s (cleanupSession_main2 w s u)"
  by (simp add: shrinks_def length_cleanupSession_main2 cleanupSession_main2_fields)

lemma admission_main2_cases:
  "(fst (admission_main2 now s u) = Admitted \<and> snd (admission_main2 now s u) = s
      \<and> length (activeClients s) < MAX_INSTANCES)
   \<or> (fst (admission_main2 now s u) \<noteq> Admitted
      \<and> activeClients (snd (admission_main2 now s u)) = activeClients s
      \<and> admitted (snd (admission_main2 now s u)) = admitted s
      \<and> created (snd (admission_main2 now s u)) = created s
      \<and> destroyed (snd (admission_main2 now s u)) = destroyed s)"
  by (auto simp: admission_main2_def Let_def set_object_def split: option.splits)









lemma send_failed_main2_slots:
  "shrinks s (snd (send_failed_main2 w s u e))"
  "created (snd (send_failed_main2 w s u e)) = created s"
  by (simp_all add: send_failed_main2_def shrinks_cleanupSession_main2 cleanupSession_main2_fields)

lemma send_to_client_main2_slots:
  "shrinks s (snd (send_to_client_main2 w now s u r))"
  "created (snd (send_to_client_main2 w now s u r)) = created s"
  by (simp_all add: send_to_client_main2_def send_failed_main2_slots split: option.splits)



















subsection \<open>Whole requests and their steps\<close>

text \<open>
  When no call of \<open>initializeClient\<close> is suspended, a request on \<open>/init\<close> or on \<open>/send-message\<close>
  through which no other handler runs is the step of its arrival followed by the step in
  which its call of \<open>initializeClient\<close> goes on.
\<close>

lemma untouched_admitted: "admitted s = [] \<Longrightarrow> s\<lparr>admitted := []\<rparr> = s"
  by (cases s) simp

lemma post_init_main2_in_steps:
  assumes "admitted s = []" and "authMiddleware a = Some u"
  shows "run_main2 s [(w, now, PostInit a), (w, now, EnsureDirResolved u InitRoute)]
           = snd (post_init_main2 w now a s)"
proof -
  obtain ad s1 where i: "admission_main2 now s u = (ad, s1)"
    by (cases "admission_main2 now s u")
  from admission_main2_cases [of now s u] i assms(1)
  have a1: "admitted s1 = []" by auto
  from admission_main2_cases [of now s u] i
  have s1: "ad = Admitted \<Longrightarrow> s1 = s" by auto
  obtain res s2 where st: "start_client_main2 w now s u = (res, s2)"
    by (cases "start_client_main2 w now s u")
  have res: "(\<exists>e. res = Threw e) \<or> (\<exists>r. res = Awaiting r)"
    using st by (auto simp: start_client_main2_def Let_def split: option.splits)
  show ?thesis
  proof (cases "\<exists>r cs. get_client s u = Some (r, cs) \<and> status cs \<noteq> Disconnected")
    case True
    with assms show ?thesis
      by (auto simp: run_main2_def post_init_begin_main2_def post_init_main2_def with_auth_def
            initializeClient_resume_main2_def)
  next
    case False
    then have b: "snd (post_init_begin_main2 now a s)
        = (case ad of Admitted \<Rightarrow> s1\<lparr>admitted := admitted s1 @ [(u, InitRoute)]\<rparr> | _ \<Rightarrow> s1)"
      using assms(2) i
      by (cases "get_client s u"; cases ad)
         (auto simp: post_init_begin_main2_def with_auth_def Let_def)
    from False have f: "snd (post_init_main2 w now a s) = snd (initializeClient_main2 w now s u)"
      using assms(2)
      by (cases "get_client s u"; cases "initializeClient_main2 w now s u";
          cases "fst (initializeClient_main2 w now s u)")
         (auto simp: post_init_main2_def with_auth_def Let_def)
    show ?thesis
    proof (cases ad)
      case Admitted
      with s1 have e: "s1 = s" by simp
      from res st assms(1) Admitted e show ?thesis
        unfolding run_main2_def
        by (auto simp: b f initializeClient_main2_def i initializeClient_resume_main2_def
              untouched_admitted)
    next
      case (Reuse r)
      with a1 show ?thesis
        unfolding run_main2_def
        by (simp add: b f initializeClient_main2_def i initializeClient_resume_main2_def)
    next
      case Enqueued
      with a1 show ?thesis
        unfolding run_main2_def
        by (simp add: b f initializeClient_main2_def i initializeClient_resume_main2_def)
    qed
  qed
qed


lemma post_send_message_main2_in_steps:
  assumes "admitted s = []" and "authMiddleware a = Some u"
  shows "run_main2 s [(w, now, PostSendMessage a number), (w, now, EnsureDirResolved u SendRoute)]
           = snd (post_send_message_main2 w now a number s)"
proof (cases number)
  case None
  from send_failed_main2_slots(1) [of s w u "''Cannot read properties of undefined''"] assms(1)
  have "admitted (snd (send_failed_main2 w s u ''Cannot read properties of undefined'')) = []"
    by (simp add: shrinks_def)
  with None assms(2) show ?thesis
    by (simp add: run_main2_def post_send_message_begin_main2_def post_send_message_main2_def
          with_auth_def initializeClient_resume_main2_def)
next
  case (Some n)
  obtain ad s1 where i: "admission_main2 now s u = (ad, s1)"
    by (cases "admission_main2 now s u")
  from admission_main2_cases [of now s u] i assms(1)
  have a1: "admitted s1 = []" by auto
  from admission_main2_cases [of now s u] i
  have s1: "ad = Admitted \<Longrightarrow> s1 = s" by auto
  obtain res s2 where st: "start_client_main2 w now s u = (res, s2)"
    by (cases "start_client_main2 w now s u")
  have res: "(\<exists>e. res = Threw e) \<or> (\<exists>r. res = Awaiting r)"
    using st by (auto simp: start_client_main2_def Let_def split: option.splits)
  show ?thesis
  proof (cases ad)
    case Admitted
    with s1 have e: "s1 = s" by simp
    from res st assms Admitted e Some i show ?thesis
      unfolding run_main2_def
      by (auto simp: post_send_message_begin_main2_def post_send_message_main2_def with_auth_def
            initializeClient_main2_def initializeClient_resume_main2_def untouched_admitted)
  next
    case (Reuse r)
    from send_to_client_main2_slots(1) [of s1 w now u r] a1
    have "admitted (snd (send_to_client_main2 w now s1 u r)) = []"
      by (simp add: shrinks_def)
    with Reuse Some i assms(2) show ?thesis
      unfolding run_main2_def
      by (simp add: post_send_message_begin_main2_def post_send_message_main2_def with_auth_def
            initializeClient_main2_def initializeClient_resume_main2_def)
  next
    case Enqueued
    with a1 Some i assms(2) show ?thesis
      unfolding run_main2_def
      by (simp add: post_send_message_begin_main2_def post_send_message_main2_def with_auth_def
            initializeClient_main2_def initializeClient_resume_main2_def)
  qed
qed

subsection \<open>Retries\<close>

lemma cleanupSession_p0_fields [simp]:
  "created (cleanupSession_p0 w s u) = created s"
  "retry_waits (cleanupSession_p0 w s u) = retry_waits s"
  by (simp_all add: cleanupSession_p0_def Let_def split: option.splits)

lemma get_client_deleted:
  "get_client (s\<lparr>activeClients := AList.delete u (activeClients s)\<rparr>) u = None"
  by (simp add: get_client_None AList.delete_notin_dom)

lemma console_cleanupSession_p0:
  "count_list (console (cleanupSession_p0 w s v)) (init_error_line u)
     = count_list (console s) (init_error_line u)"
  by (simp add: cleanupSession_p0_def init_error_line_def Let_def split: option.splits)

lemma evict_oldest_p0_fields:
  "created (snd (evict_oldest_p0 w now s)) = created s"
  "retry_waits (snd (evict_oldest_p0 w now s)) = retry_waits s"
  "count_list (console (snd (evict_oldest_p0 w now s))) (init_error_line u)
     = count_list (console s) (init_error_line u)"
  by (simp_all add: evict_oldest_p0_def console_cleanupSession_p0 split: prod.splits option.splits)

lemma start_client_p0_throws:
  assumes "construct_err w (created s) \<noteq> None \<or> initialize_err w (created s) \<noteq> None"
  shows "(\<exists>e. fst (start_client_p0 w now sessionExists s u) = Threw e
            \<and> (construct_err w (created s) = Some e \<or> initialize_err w (created s) = Some e))
       \<and> console (snd (start_client_p0 w now sessionExists s u)) = console s
       \<and> retry_waits (snd (start_client_p0 w now sessionExists s u)) = retry_waits s
       \<and> (construct_err w (created s) = None \<longrightarrow>
            created (snd (start_client_p0 w now sessionExists s u)) = Suc (created s))"
proof (cases "construct_err w (created s)")
  case None
  with assms obtain e where "initialize_err w (created s) = Some e"
    by auto
  with None show ?thesis
    by (simp add: start_client_p0_def store_client_def Let_def)
next
  case (Some e)
  then show ?thesis
    by (simp add: start_client_p0_def)
qed

lemma admit_p0_throws:
  assumes "construct_err w (created s) \<noteq> None \<or> initialize_err w (created s) \<noteq> None"
  shows "(\<exists>e. fst (admit_p0 w now sessionExists s u) = Threw e
            \<and> (construct_err w (created s) = Some e \<or> initialize_err w (created s) = Some e))
       \<and> count_list (console (snd (snd (admit_p0 w now sessionExists s u)))) (init_error_line u)
           = count_list (console s) (init_error_line u)
       \<and> retry_waits (snd (snd (admit_p0 w now sessionExists s u))) = retry_waits s
       \<and> (construct_err w (created s) = None \<longrightarrow>
            created (snd (snd (admit_p0 w now sessionExists s u))) = Suc (created s))"
proof -
  obtain t s1 where ev: "evict_oldest_p0 w now s = (t, s1)"
    by (cases "evict_oldest_p0 w now s")
  from evict_oldest_p0_fields(1,2) [of w now s] evict_oldest_p0_fields(3) [of w now s u] ev
  have c: "created s1 = created s" and r: "retry_waits s1 = retry_waits s"
    and k: "count_list (console s1) (init_error_line u) = count_list (console s) (init_error_line u)"
    by simp_all
  from assms c
  have "construct_err w (created s1) \<noteq> None \<or> initialize_err w (created s1) \<noteq> None"
    by simp
  from start_client_p0_throws [OF this, of t sessionExists u] c r k ev show ?thesis
    by (auto simp: admit_p0_def split: prod.splits)
qed

lemma try_initializeClient_p0_throws:
  assumes "construct_err w (created s) \<noteq> None \<or> initialize_err w (created s) \<noteq> None"
    and "\<forall>r cs. get_client s u = Some (r, cs) \<longrightarrow> status cs \<noteq> Ready"
  shows "(\<exists>e. fst (try_initializeClient_p0 w now sessionExists s u) = Threw e
            \<and> (construct_err w (created s) = Some e \<or> initialize_err w (created s) = Some e))
       \<and> count_list (console (snd (snd (try_initializeClient_p0 w now sessionExists s u))))
             (init_error_line u)
           = count_list (console s) (init_error_line u)
       \<and> retry_waits (snd (snd (try_initializeClient_p0 w now sessionExists s u))) = retry_waits s
       \<and> (construct_err w (created s) = None \<longrightarrow>
            created (snd (snd (try_initializeClient_p0 w now sessionExists s u))) = Suc (created s))"
proof -
  define dead where "dead \<longleftrightarrow> (\<exists>r cs. get_client s u = Some (r, cs) \<and> status cs \<in> {Disconnected, Error})"
  define t0 where "t0 = (if dead then after_cleanupSession_p0 w now s u else now)"
  define s0 where "s0 = (if dead then cleanupSession_p0 w s u else s)"
  have t: "try_initializeClient_p0 w now sessionExists s u = admit_p0 w t0 sessionExists s0 u"
    using assms(2)
    by (cases "get_client s u") (auto simp: try_initializeClient_p0_def s0_def t0_def dead_def)
  have c: "created s0 = created s" and r: "retry_waits s0 = retry_waits s"
    by (simp_all add: s0_def)
  have k: "count_list (console s0) (init_error_line u)
             = count_list (console s) (init_error_line u)"
    by (simp add: s0_def console_cleanupSession_p0)
  from assms(1) c
  have "construct_err w (created s0) \<noteq> None \<or> initialize_err w (created s0) \<noteq> None"
    by simp
  from admit_p0_throws [OF this, of t0 sessionExists u] c r k show ?thesis
    unfolding t by simp
qed

lemma initializeClient_p0_gives_up:
  assumes "\<forall>r. construct_err w r \<noteq> None \<or> initialize_err w r \<noteq> None"
    and "\<forall>r cs. get_client s u = Some (r, cs) \<longrightarrow> status cs \<noteq> Ready"
    and "retryCount \<le> MAX_RETRIES"
  shows "(\<exists>e r. (construct_err w r = Some e \<or> initialize_err w r = Some e)
            \<and> fst (initializeClient_p0 w now sessionExists s u retryCount) = Threw e)
       \<and> get_client (snd (initializeClient_p0 w now sessionExists s u retryCount)) u = None
       \<and> count_list (console (snd (initializeClient_p0 w now sessionExists s u retryCount)))
             (init_error_line u) + retryCount
           = count_list (console s) (init_error_line u) + Suc MAX_RETRIES
       \<and> retry_waits (snd (initializeClient_p0 w now sessionExists s u retryCount))
           = retry_waits s @ replicate (MAX_RETRIES - retryCount) RETRY_DELAY
       \<and> ((\<forall>r. construct_err w r = None) \<longrightarrow>
            created (snd (initializeClient_p0 w now sessionExists s u retryCount)) + retryCount
              = created s + Suc MAX_RETRIES)"
  using assms
proof (induction w now sessionExists s u retryCount rule: initializeClient_p0.induct)
  case (1 w now sessionExists s u retryCount)
  let ?l = "init_error_line u"
  obtain res t s1 where t: "try_initializeClient_p0 w now sessionExists s u = (res, t, s1)"
    by (cases "try_initializeClient_p0 w now sessionExists s u") auto
  from "1.prems"(1) have f: "construct_err w (created s) \<noteq> None \<or> initialize_err w (created s) \<noteq> None"
    by simp
  from try_initializeClient_p0_throws [OF f "1.prems"(2), of now sessionExists] t
  obtain e where res: "res = Threw e"
    and e: "construct_err w (created s) = Some e \<or> initialize_err w (created s) = Some e"
    and k1: "count_list (console s1) ?l = count_list (console s) ?l"
    and r1: "retry_waits s1 = retry_waits s"
    and c1: "construct_err w (created s) = None \<longrightarrow> created s1 = Suc (created s)"
    by auto
  define s2 where "s2 = s1\<lparr>console := console s1 @ [?l],
               activeClients := AList.delete u (activeClients s1)\<rparr>"
  define s3 where "s3 = s2\<lparr>retry_waits := retry_waits s2 @ [RETRY_DELAY]\<rparr>"
  have g: "get_client s2 u = None"
    by (simp add: s2_def get_client_None AList.delete_notin_dom)
  then have g3: "get_client s3 u = None"
    by (simp add: s3_def get_client_def split: option.splits)
  have k2: "count_list (console s2) ?l = Suc (count_list (console s) ?l)"
    using k1 by (simp add: s2_def)
  have c2: "construct_err w (created s) = None \<longrightarrow> created s2 = Suc (created s)"
    using c1 by (simp add: s2_def)
  have r2: "retry_waits s2 = retry_waits s"
    using r1 by (simp add: s2_def)
  show ?case
  proof (cases "retryCount < MAX_RETRIES")
    case True
    define out where "out = initializeClient_p0 w (pause w RETRY_DELAY t) True s3 u (retryCount + 1)"
    have step: "initializeClient_p0 w now sessionExists s u retryCount = out"
      using t res True
      by (simp add: initializeClient_p0.simps [of w now sessionExists s u retryCount] Let_def
            out_def s2_def s3_def)
    from g3 have nr: "\<forall>r cs. get_client s3 u = Some (r, cs) \<longrightarrow> status cs \<noteq> Ready"
      by simp
    from True have le: "retryCount + 1 \<le> MAX_RETRIES" by simp
    have ih: "(\<exists>e r. (construct_err w r = Some e \<or> initialize_err w r = Some e) \<and> fst out = Threw e)
       \<and> get_client (snd out) u = None
       \<and> count_list (console (snd out)) ?l + (retryCount + 1)
           = count_list (console s3) ?l + Suc MAX_RETRIES
       \<and> retry_waits (snd out) = retry_waits s3 @ replicate (MAX_RETRIES - (retryCount + 1)) RETRY_DELAY
       \<and> ((\<forall>r. construct_err w r = None) \<longrightarrow>
            created (snd out) + (retryCount + 1) = created s3 + Suc MAX_RETRIES)"
      unfolding out_def s3_def
      by (rule "1.IH" [OF t [symmetric] res refl s2_def True "1.prems"(1) nr [unfolded s3_def] le])
    from ih have i1: "\<exists>e r. (construct_err w r = Some e \<or> initialize_err w r = Some e) \<and> fst out = Threw e"
      and i2: "get_client (snd out) u = None"
      and i3: "count_list (console (snd out)) ?l + (retryCount + 1)
                = count_list (console s3) ?l + Suc MAX_RETRIES"
      and i5: "retry_waits (snd out) = retry_waits s3 @ replicate (MAX_RETRIES - (retryCount + 1)) RETRY_DELAY"
      and i4: "(\<forall>r. construct_err w r = None) \<longrightarrow>
                created (snd out) + (retryCount + 1) = created s3 + Suc MAX_RETRIES"
      by blast+
    from i3 k2 have j3: "count_list (console (snd out)) ?l + retryCount
                = count_list (console s) ?l + Suc MAX_RETRIES"
      by (simp add: s3_def)
    from i4 c2 have j4: "(\<forall>r. construct_err w r = None) \<longrightarrow>
                created (snd out) + retryCount = created s + Suc MAX_RETRIES"
      by (simp add: s3_def)
    from True have "MAX_RETRIES - retryCount = Suc (MAX_RETRIES - (retryCount + 1))"
      by simp
    with i5 r2 have j5: "retry_waits (snd out) = retry_waits s @ replicate (MAX_RETRIES - retryCount) RETRY_DELAY"
      by (simp add: s3_def)
    from i1 i2 j3 j4 j5 show ?thesis
      unfolding step by blast
  next
    case False
    with "1.prems"(3) have eq: "retryCount = MAX_RETRIES"
      by simp
    have step: "initializeClient_p0 w now sessionExists s u retryCount = (Threw e, s2)"
      using t res False
      by (simp add: initializeClient_p0.simps [of w now sessionExists s u retryCount] Let_def s2_def)
    from e have f1: "\<exists>e' r. (construct_err w r = Some e' \<or> initialize_err w r = Some e')
                     \<and> fst (Threw e, s2) = Threw e'"
      by auto
    from k2 eq have f3: "count_list (console (snd (Threw e, s2))) ?l + retryCount
                = count_list (console s) ?l + Suc MAX_RETRIES"
      by simp
    from c2 eq have f4: "(\<forall>r. construct_err w r = None) \<longrightarrow>
                created (snd (Threw e, s2)) + retryCount = created s + Suc MAX_RETRIES"
      by simp
    from r2 eq have f5: "retry_waits (snd (Threw e, s2))
           = retry_waits s @ replicate (MAX_RETRIES - retryCount) RETRY_DELAY"
      by simp
    from f1 g f3 f4 f5 show ?thesis
      unfolding step by simp
  qed
qed


lemma least_busy_selected:
  "selectedInstance \<noteq> None \<Longrightarrow> fst (least_busy pool (selectedInstance, minUsers)) \<noteq> None"
proof (induction pool arbitrary: selectedInstance minUsers)
  case Nil
  then show ?case by simp
next
  case (Cons p pool)
  obtain i users where p: "p = (i, users)" by (cases p)
  show ?case
  proof (cases "case minUsers of None \<Rightarrow> True | Some m \<Rightarrow> length users < m")
    case True
    with p Cons.IH [of "Some i" "Some (length users)"] show ?thesis by simp
  next
    case False
    with p Cons.IH [OF Cons.prems, of minUsers] show ?thesis by simp
  qed
qed

lemma getClientInstance_some:
  "\<exists>i. fst (getClientInstance s) = Some i"
proof (cases "clientPool s")
  case Nil
  then show ?thesis
    by (simp add: getClientInstance_def MAX_INSTANCES_def)
next
  case (Cons p ps)
  obtain i users where p: "p = (i, users)" by (cases p)
  from least_busy_selected [of "Some i" ps "Some (length users)"] Cons p
  have "fst (least_busy (clientPool s) (None, None)) \<noteq> None"
    by simp
  then show ?thesis
    by (auto simp: getClientInstance_def split: option.splits)
qed

lemma getClientInstance_fields [simp]:
  "created (snd (getClientInstance s)) = created s"
  "activeClients (snd (getClientInstance s)) = activeClients s"
  "objects (snd (getClientInstance s)) = objects s"
  "console (snd (getClientInstance s)) = console s"
  "retry_waits (snd (getClientInstance s)) = retry_waits s"
  by (simp_all add: getClientInstance_def split: option.splits)

lemma loadSession_fields [simp]:
  "created (snd (loadSession w s u)) = created s"
  "activeClients (snd (loadSession w s u)) = activeClients s"
  "objects (snd (loadSession w s u)) = objects s"
  "console (snd (loadSession w s u)) = console s"
  "retry_waits (snd (loadSession w s u)) = retry_waits s"
  by (simp_all add: loadSession_def split: option.splits)

lemma try_initializeClient_p1_throws:
  assumes "construct_err w (created s) \<noteq> None \<or> initialize_err w (created s) \<noteq> None"
    and "\<forall>r cs. get_client s u = Some (r, cs) \<longrightarrow> status cs \<noteq> Ready"
  shows "(\<exists>e. fst (try_initializeClient_p1 w now s u) = Threw e
            \<and> (construct_err w (created s) = Some e \<or> initialize_err w (created s) = Some e))
       \<and> count_list (console (snd (try_initializeClient_p1 w now s u))) (init_error_line u)
           = count_list (console s) (init_error_line u)
       \<and> retry_waits (snd (try_initializeClient_p1 w now s u)) = retry_waits s
       \<and> (construct_err w (created s) = None \<longrightarrow>
            created (snd (try_initializeClient_p1 w now s u)) = Suc (created s))"
proof -
  obtain saved s1 where l: "loadSession w s u = (saved, s1)"
    by (cases "loadSession w s u")
  with loadSession_fields(1,4,5) [of w s u]
  have c1: "created s1 = created s" "console s1 = console s" "retry_waits s1 = retry_waits s"
    by simp_all
  obtain inst s2 where i: "getClientInstance s1 = (inst, s2)"
    by (cases "getClientInstance s1")
  with getClientInstance_some [of s1] getClientInstance_fields(1,4,5) [of s1]
  obtain k where k: "inst = Some k" and c2: "created s2 = created s1" "console s2 = console s1"
      "retry_waits s2 = retry_waits s1"
    by auto
  define authenticated where "authenticated = (case saved of None \<Rightarrow> False | Some (t, a) \<Rightarrow> a)"
  define s3 where "s3 = store_client u
     ((new_clientState (if authenticated then Resuming else Initializing)
         now (Some Unsettled) True)\<lparr>pool_instance := Some k\<rparr>) s2"
  have t: "try_initializeClient_p1 w now s u =
             (case construct_err w (created s2) of
                Some e \<Rightarrow> (Threw e, s2)
              | None \<Rightarrow> (case initialize_err w (created s2) of
                           None \<Rightarrow> (Awaiting (created s2), s3)
                         | Some e \<Rightarrow> (Threw e, s3)))"
  proof (cases "get_client s u")
    case None
    with l i k show ?thesis
      by (simp add: try_initializeClient_p1_def Let_def s3_def authenticated_def split: option.splits)
  next
    case (Some p)
    obtain r cs where p: "p = (r, cs)" by (cases p)
    with Some assms(2) have "status cs \<noteq> Ready" by simp
    with Some p l i k show ?thesis
      by (simp add: try_initializeClient_p1_def Let_def s3_def authenticated_def split: option.splits)
  qed
  have s3: "console s3 = console s2" "created s3 = Suc (created s2)" "retry_waits s3 = retry_waits s2"
    by (simp_all add: s3_def store_client_def)
  show ?thesis
  proof (cases "construct_err w (created s2)")
    case None
    with assms(1) c1 c2 obtain e where "initialize_err w (created s2) = Some e"
      by auto
    with None c1 c2 s3 show ?thesis
      unfolding t by simp
  next
    case (Some e)
    with c1 c2 show ?thesis
      unfolding t by simp
  qed
qed

lemma initializeClient_p1_gives_up:
  assumes "\<forall>r. construct_err w r \<noteq> None \<or> initialize_err w r \<noteq> None"
    and "\<forall>r cs. get_client s u = Some (r, cs) \<longrightarrow> status cs \<noteq> Ready"
    and "retryCount \<le> MAX_RETRIES"
  shows "(\<exists>e r. (construct_err w r = Some e \<or> initialize_err w r = Some e)
            \<and> fst (initializeClient_p1 w now s u retryCount) = Threw e)
       \<and> get_client (snd (initializeClient_p1 w now s u retryCount)) u = None
       \<and> count_list (console (snd (initializeClient_p1 w now s u retryCount)))
             (init_error_line u) + retryCount
           = count_list (console s) (init_error_line u) + Suc MAX_RETRIES
       \<and> retry_waits (snd (initializeClient_p1 w now s u retryCount))
           = retry_waits s @ replicate (MAX_RETRIES - retryCount) RETRY_DELAY
       \<and> ((\<forall>r. construct_err w r = None) \<longrightarrow>
            created (snd (initializeClient_p1 w now s u retryCount)) + retryCount
              = created s + Suc MAX_RETRIES)"
  using assms
proof (induction w now s u retryCount rule: initializeClient_p1.induct)
  case (1 w now s u retryCount)
  let ?l = "init_error_line u"
  obtain res s1 where t: "try_initializeClient_p1 w now s u = (res, s1)"
    by (cases "try_initializeClient_p1 w now s u")
  from "1.prems"(1) have f: "construct_err w (created s) \<noteq> None \<or> initialize_err w (created s) \<noteq> None"
    by simp
  from try_initializeClient_p1_throws [OF f "1.prems"(2), of now] t
  obtain e where res: "res = Threw e"
    and e: "construct_err w (created s) = Some e \<or> initialize_err w (created s) = Some e"
    and k1: "count_list (console s1) ?l = count_list (console s) ?l"
    and r1: "retry_waits s1 = retry_waits s"
    and c1: "construct_err w (created s) = None \<longrightarrow> created s1 = Suc (created s)"
    by auto
  define s2 where "s2 = s1\<lparr>console := console s1 @ [?l],
               activeClients := AList.delete u (activeClients s1)\<rparr>"
  define s3 where "s3 = s2\<lparr>retry_waits := retry_waits s2 @ [RETRY_DELAY]\<rparr>"
  have g: "get_client s2 u = None"
    by (simp add: s2_def get_client_None AList.delete_notin_dom)
  then have g3: "get_client s3 u = None"
    by (simp add: s3_def get_client_def split: option.splits)
  have k2: "count_list (console s2) ?l = Suc (count_list (console s) ?l)"
    using k1 by (simp add: s2_def)
  have c2: "construct_err w (created s) = None \<longrightarrow> created s2 = Suc (created s)"
    using c1 by (simp add: s2_def)
  have r2: "retry_waits s2 = retry_waits s"
    using r1 by (simp add: s2_def)
  show ?case
  proof (cases "retryCount < MAX_RETRIES")
    case True
    define out where "out = initializeClient_p1 w (pause w RETRY_DELAY now) s3 u (retryCount + 1)"
    have step: "initializeClient_p1 w now s u retryCount = out"
      using t res True
      by (simp add: initializeClient_p1.simps [of w now s u retryCount] Let_def out_def s2_def s3_def)
    from g3 have nr: "\<forall>r cs. get_client s3 u = Some (r, cs) \<longrightarrow> status cs \<noteq> Ready"
      by simp
    from True have le: "retryCount + 1 \<le> MAX_RETRIES" by simp
    have ih: "(\<exists>e r. (construct_err w r = Some e \<or> initialize_err w r = Some e) \<and> fst out = Threw e)
       \<and> get_client (snd out) u = None
       \<and> count_list (console (snd out)) ?l + (retryCount + 1)
           = count_list (console s3) ?l + Suc MAX_RETRIES
       \<and> retry_waits (snd out) = retry_waits s3 @ replicate (MAX_RETRIES - (retryCount + 1)) RETRY_DELAY
       \<and> ((\<forall>r. construct_err w r = None) \<longrightarrow>
            created (snd out) + (retryCount + 1) = created s3 + Suc MAX_RETRIES)"
      unfolding out_def s3_def
      by (rule "1.IH" [OF t [symmetric] res s2_def True "1.prems"(1) nr [unfolded s3_def] le])
    from ih have i1: "\<exists>e r. (construct_err w r = Some e \<or> initialize_err w r = Some e) \<and> fst out = Threw e"
      and i2: "get_client (snd out) u = None"
      and i3: "count_list (console (snd out)) ?l + (retryCount + 1)
                = count_list (console s3) ?l + Suc MAX_RETRIES"
      and i5: "retry_waits (snd out) = retry_waits s3 @ replicate (MAX_RETRIES - (retryCount + 1)) RETRY_DELAY"
      and i4: "(\<forall>r. construct_err w r = None) \<longrightarrow>
                created (snd out) + (retryCount + 1) = created s3 + Suc MAX_RETRIES"
      by blast+
    from i3 k2 have j3: "count_list (console (snd out)) ?l + retryCount
                = count_list (console s) ?l + Suc MAX_RETRIES"
      by (simp add: s3_def)
    from i4 c2 have j4: "(\<forall>r. construct_err w r = None) \<longrightarrow>
                created (snd out) + retryCount = created s + Suc MAX_RETRIES"
      by (simp add: s3_def)
    from True have "MAX_RETRIES - retryCount = Suc (MAX_RETRIES - (retryCount + 1))"
      by simp
    with i5 r2 have j5: "retry_waits (snd out) = retry_waits s @ replicate (MAX_RETRIES - retryCount) RETRY_DELAY"
      by (simp add: s3_def)
    from i1 i2 j3 j4 j5 show ?thesis
      unfolding step by blast
  next
    case False
    with "1.prems"(3) have eq: "retryCount = MAX_RETRIES"
      by simp
    have step: "initializeClient_p1 w now s u retryCount = (Threw e, s2)"
      using t res False
      by (simp add: initializeClient_p1.simps [of w now s u retryCount] Let_def s2_def)
    from e have f1: "\<exists>e' r. (construct_err w r = Some e' \<or> initialize_err w r = Some e')
                     \<and> fst (Threw e, s2) = Threw e'"
      by auto
    from k2 eq have f3: "count_list (console (snd (Threw e, s2))) ?l + retryCount
                = count_list (console s) ?l + Suc MAX_RETRIES"
      by simp
    from c2 eq have f4: "(\<forall>r. construct_err w r = None) \<longrightarrow>
                created (snd (Threw e, s2)) + retryCount = created s + Suc MAX_RETRIES"
      by simp
    from r2 eq have f5: "retry_waits (snd (Threw e, s2))
           = retry_waits s @ replicate (MAX_RETRIES - retryCount) RETRY_DELAY"
      by simp
    from f1 g f3 f4 f5 show ?thesis
      unfolding step by simp
  qed
qed


subsection \<open>The clock of the retries\<close>

lemma pause_later: "0 \<le> d \<Longrightarrow> now \<le> pause w d now"
  by (simp add: pause_def)

lemma cleanupSession_p0_objects [simp]: "objects (cleanupSession_p0 w s u) = objects s"
  by (simp add: cleanupSession_p0_def Let_def split: option.splits)

lemma evict_oldest_p0_clock:
  "now \<le> fst (evict_oldest_p0 w now s)"
  "objects (snd (evict_oldest_p0 w now s)) = objects s"
  by (auto simp: evict_oldest_p0_def after_cleanupSession_p0_def pause_later
           split: prod.splits option.splits)

lemma start_client_p0_objects:
  "created s \<le> created (snd (start_client_p0 w now sessionExists s u))"
  "r < created s \<Longrightarrow> objects (snd (start_client_p0 w now sessionExists s u)) r = objects s r"
  "construct_err w (created s) = None \<Longrightarrow>
     lastActivity (objects (snd (start_client_p0 w now sessionExists s u)) (created s)) = now"
  by (auto simp: start_client_p0_def store_client_def new_clientState_def Let_def
           split: option.splits)

lemma admit_p0_objects:
  "created s \<le> created (snd (snd (admit_p0 w now sessionExists s u)))"
  "r < created s \<Longrightarrow> objects (snd (snd (admit_p0 w now sessionExists s u))) r = objects s r"
  "now \<le> fst (snd (admit_p0 w now sessionExists s u))"
  "construct_err w (created s) = None \<Longrightarrow>
     lastActivity (objects (snd (snd (admit_p0 w now sessionExists s u))) (created s))
       = fst (snd (admit_p0 w now sessionExists s u))"
proof -
  obtain t s1 where ev: "evict_oldest_p0 w now s = (t, s1)"
    by (cases "evict_oldest_p0 w now s")
  from evict_oldest_p0_fields(1) [of w now s]
       evict_oldest_p0_clock(1) [where now = now and w = w and s = s]
       evict_oldest_p0_clock(2) [where now = now and w = w and s = s] ev
  have c: "created s1 = created s" and o: "objects s1 = objects s" and t: "now \<le> t"
    by simp_all
  obtain res s2 where st: "start_client_p0 w t sessionExists s1 u = (res, s2)"
    by (cases "start_client_p0 w t sessionExists s1 u")
  have a: "admit_p0 w now sessionExists s u = (res, t, s2)"
    by (simp add: admit_p0_def ev st)
  from start_client_p0_objects(1) [where s = s1 and w = w and now = t and sessionExists = sessionExists and u = u] st c
  show "created s \<le> created (snd (snd (admit_p0 w now sessionExists s u)))"
    by (simp add: a)
  from start_client_p0_objects(2) [where r = r and s = s1 and w = w and now = t and sessionExists = sessionExists and u = u] st c o
  show "r < created s \<Longrightarrow> objects (snd (snd (admit_p0 w now sessionExists s u))) r = objects s r"
    by (simp add: a)
  from t show "now \<le> fst (snd (admit_p0 w now sessionExists s u))"
    by (simp add: a)
  from start_client_p0_objects(3) [where s = s1 and w = w and now = t and sessionExists = sessionExists and u = u] st c
  show "construct_err w (created s) = None \<Longrightarrow>
     lastActivity (objects (snd (snd (admit_p0 w now sessionExists s u))) (created s))
       = fst (snd (admit_p0 w now sessionExists s u))"
    by (simp add: a)
qed

lemma try_initializeClient_p0_objects:
  "created s \<le> created (snd (snd (try_initializeClient_p0 w now sessionExists s u)))"
  "r < created s \<Longrightarrow>
     objects (snd (snd (try_initializeClient_p0 w now sessionExists s u))) r = objects s r"
  "now \<le> fst (snd (try_initializeClient_p0 w now sessionExists s u))"
proof -
  define dead where "dead \<longleftrightarrow> (\<exists>r cs. get_client s u = Some (r, cs) \<and> status cs \<in> {Disconnected, Error})"
  define t0 where "t0 = (if dead then after_cleanupSession_p0 w now s u else now)"
  define s0 where "s0 = (if dead then cleanupSession_p0 w s u else s)"
  have t: "try_initializeClient_p0 w now sessionExists s u = admit_p0 w t0 sessionExists s0 u
           \<or> (\<exists>r'. try_initializeClient_p0 w now sessionExists s u = (Returned r', now, s))"
    by (cases "get_client s u") (auto simp: try_initializeClient_p0_def s0_def t0_def dead_def)
  have c: "created s0 = created s" and o: "objects s0 = objects s" and t0: "now \<le> t0"
    by (simp_all add: s0_def t0_def after_cleanupSession_p0_def pause_later split: option.splits)
  from t admit_p0_objects(1) [where s = s0 and w = w and now = t0 and sessionExists = sessionExists and u = u] c
  show "created s \<le> created (snd (snd (try_initializeClient_p0 w now sessionExists s u)))"
    by auto
  from t admit_p0_objects(2) [where r = r and s = s0 and w = w and now = t0 and sessionExists = sessionExists and u = u] c o
  show "r < created s \<Longrightarrow>
     objects (snd (snd (try_initializeClient_p0 w now sessionExists s u))) r = objects s r"
    by auto
  from t admit_p0_objects(3) [where s = s0 and w = w and now = t0 and sessionExists = sessionExists and u = u] t0
  show "now \<le> fst (snd (try_initializeClient_p0 w now sessionExists s u))"
    by auto
qed

lemma try_initializeClient_p0_stamp:
  assumes "construct_err w (created s) = None"
    and "\<forall>r cs. get_client s u = Some (r, cs) \<longrightarrow> status cs \<noteq> Ready"
  shows "lastActivity (objects (snd (snd (try_initializeClient_p0 w now sessionExists s u))) (created s))
           = fst (snd (try_initializeClient_p0 w now sessionExists s u))"
proof -
  define dead where "dead \<longleftrightarrow> (\<exists>r cs. get_client s u = Some (r, cs) \<and> status cs \<in> {Disconnected, Error})"
  define t0 where "t0 = (if dead then after_cleanupSession_p0 w now s u else now)"
  define s0 where "s0 = (if dead then cleanupSession_p0 w s u else s)"
  have t: "try_initializeClient_p0 w now sessionExists s u = admit_p0 w t0 sessionExists s0 u"
    using assms(2)
    by (cases "get_client s u") (auto simp: try_initializeClient_p0_def s0_def t0_def dead_def)
  have c: "created s0 = created s"
    by (simp add: s0_def)
  from admit_p0_objects(4) [where s = s0 and w = w and now = t0 and sessionExists = sessionExists and u = u] assms(1) c show ?thesis
    unfolding t by simp
qed

lemma initializeClient_p0_objects:
  "created s \<le> created (snd (initializeClient_p0 w now sessionExists s u retryCount))
   \<and> (\<forall>r < created s. objects (snd (initializeClient_p0 w now sessionExists s u retryCount)) r
                         = objects s r)"
proof (induction w now sessionExists s u retryCount rule: initializeClient_p0.induct)
  case (1 w now sessionExists s u retryCount)
  obtain res t s1 where t: "try_initializeClient_p0 w now sessionExists s u = (res, t, s1)"
    by (cases "try_initializeClient_p0 w now sessionExists s u") auto
  from try_initializeClient_p0_objects(1) [where s = s and w = w and now = now and sessionExists = sessionExists and u = u] t
  have c1: "created s \<le> created s1" by simp
  have o1: "\<forall>r < created s. objects s1 r = objects s r"
    using try_initializeClient_p0_objects(2) [where s = s and w = w and now = now and sessionExists = sessionExists and u = u] t by simp
  define s2 where "s2 = s1\<lparr>console := console s1 @ [init_error_line u],
               activeClients := AList.delete u (activeClients s1)\<rparr>"
  define s3 where "s3 = s2\<lparr>retry_waits := retry_waits s2 @ [RETRY_DELAY]\<rparr>"
  have c3: "created s3 = created s1" "objects s3 = objects s1" "created s2 = created s1"
    "objects s2 = objects s1"
    by (simp_all add: s3_def s2_def)
  show ?case
  proof (cases "(\<exists>e. res = Threw e) \<and> retryCount < MAX_RETRIES")
    case True
    then obtain e where res: "res = Threw e" and lt: "retryCount < MAX_RETRIES"
      by auto
    define out where "out = initializeClient_p0 w (pause w RETRY_DELAY t) True s3 u (retryCount + 1)"
    have step: "initializeClient_p0 w now sessionExists s u retryCount = out"
      using t res lt
      by (simp add: initializeClient_p0.simps [of w now sessionExists s u retryCount] Let_def
            out_def s2_def s3_def)
    have ih: "created s3 \<le> created (snd out) \<and> (\<forall>r < created s3. objects (snd out) r = objects s3 r)"
      unfolding out_def s3_def
      by (rule "1.IH" [OF t [symmetric] res refl s2_def lt])
    from ih c1 o1 c3 show ?thesis
      unfolding step by auto
  next
    case False
    then have "snd (initializeClient_p0 w now sessionExists s u retryCount) = s1
               \<or> snd (initializeClient_p0 w now sessionExists s u retryCount) = s2"
      using t
      by (cases res)
         (auto simp: initializeClient_p0.simps [of w now sessionExists s u retryCount] Let_def s2_def)
    with c1 o1 c3 show ?thesis by auto
  qed
qed

lemma initializeClient_p0_stamps:
  assumes "\<forall>r. construct_err w r = None" and "\<forall>r. initialize_err w r \<noteq> None"
    and "\<forall>r cs. get_client s u = Some (r, cs) \<longrightarrow> status cs \<noteq> Ready"
    and "retryCount \<le> MAX_RETRIES"
  shows "now \<le> lastActivity (objects (snd (initializeClient_p0 w now sessionExists s u retryCount)) (created s))
       \<and> (\<forall>k < MAX_RETRIES - retryCount.
            lastActivity (objects (snd (initializeClient_p0 w now sessionExists s u retryCount))
                            (created s + k)) + RETRY_DELAY
              \<le> lastActivity (objects (snd (initializeClient_p0 w now sessionExists s u retryCount))
                            (created s + Suc k)))"
  using assms
proof (induction w now sessionExists s u retryCount rule: initializeClient_p0.induct)
  case (1 w now sessionExists s u retryCount)
  obtain res t s1 where t: "try_initializeClient_p0 w now sessionExists s u = (res, t, s1)"
    by (cases "try_initializeClient_p0 w now sessionExists s u") auto
  from "1.prems"(1,2) have f: "construct_err w (created s) \<noteq> None \<or> initialize_err w (created s) \<noteq> None"
    and ok: "construct_err w (created s) = None"
    by simp_all
  from try_initializeClient_p0_throws [OF f "1.prems"(3), of now sessionExists] t ok
  obtain e where res: "res = Threw e" and c1: "created s1 = Suc (created s)"
    by auto
  from try_initializeClient_p0_stamp [OF ok "1.prems"(3), of now sessionExists] t
  have st: "lastActivity (objects s1 (created s)) = t" by simp
  from try_initializeClient_p0_objects(3) [where s = s and w = w and now = now and sessionExists = sessionExists and u = u] t
  have tl: "now \<le> t" by simp
  define s2 where "s2 = s1\<lparr>console := console s1 @ [init_error_line u],
               activeClients := AList.delete u (activeClients s1)\<rparr>"
  define s3 where "s3 = s2\<lparr>retry_waits := retry_waits s2 @ [RETRY_DELAY]\<rparr>"
  have c3: "created s3 = Suc (created s)" "objects s3 = objects s1" "objects s2 = objects s1"
    using c1 by (simp_all add: s3_def s2_def)
  have g3: "get_client s3 u = None"
    by (simp add: s3_def s2_def get_client_None AList.delete_notin_dom)
  show ?case
  proof (cases "retryCount < MAX_RETRIES")
    case True
    define out where "out = initializeClient_p0 w (pause w RETRY_DELAY t) True s3 u (retryCount + 1)"
    have step: "initializeClient_p0 w now sessionExists s u retryCount = out"
      using t res True
      by (simp add: initializeClient_p0.simps [of w now sessionExists s u retryCount] Let_def
            out_def s2_def s3_def)
    from g3 have nr: "\<forall>r cs. get_client s3 u = Some (r, cs) \<longrightarrow> status cs \<noteq> Ready"
      by simp
    from True have le: "retryCount + 1 \<le> MAX_RETRIES" by simp
    have ih: "pause w RETRY_DELAY t \<le> lastActivity (objects (snd out) (created s3))
       \<and> (\<forall>k < MAX_RETRIES - (retryCount + 1).
            lastActivity (objects (snd out) (created s3 + k)) + RETRY_DELAY
              \<le> lastActivity (objects (snd out) (created s3 + Suc k)))"
      unfolding out_def s3_def
      by (rule "1.IH" [OF t [symmetric] res refl s2_def True "1.prems"(1,2) nr [unfolded s3_def] le])
    from initializeClient_p0_objects [of s3 w "pause w RETRY_DELAY t" True u "retryCount + 1"] c3
    have keep: "objects (snd out) (created s) = objects s1 (created s)"
      by (simp add: out_def)
    with st have first: "lastActivity (objects (snd out) (created s)) = t"
      by simp
    have "t + RETRY_DELAY \<le> pause w RETRY_DELAY t"
      by (simp add: pause_def)
    with ih c3 first have zero: "lastActivity (objects (snd out) (created s)) + RETRY_DELAY
              \<le> lastActivity (objects (snd out) (created s + Suc 0))"
      by simp
    have "lastActivity (objects (snd out) (created s + k)) + RETRY_DELAY
              \<le> lastActivity (objects (snd out) (created s + Suc k))"
      if "k < MAX_RETRIES - retryCount" for k
    proof (cases k)
      case 0
      with zero show ?thesis by simp
    next
      case (Suc j)
      with that have "j < MAX_RETRIES - (retryCount + 1)" by simp
      with ih c3 Suc show ?thesis by simp
    qed
    with first tl show ?thesis
      unfolding step by simp
  next
    case False
    with "1.prems"(4) have eq: "retryCount = MAX_RETRIES"
      by simp
    have step: "initializeClient_p0 w now sessionExists s u retryCount = (Threw e, s2)"
      using t res False
      by (simp add: initializeClient_p0.simps [of w now sessionExists s u retryCount] Let_def s2_def)
    from st tl c3 eq show ?thesis
      unfolding step by simp
  qed
qed


lemma try_initializeClient_p1_objects:
  "created s \<le> created (snd (try_initializeClient_p1 w now s u))"
  "r < created s \<Longrightarrow> objects (snd (try_initializeClient_p1 w now s u)) r = objects s r"
proof -
  obtain saved s1 where l: "loadSession w s u = (saved, s1)"
    by (cases "loadSession w s u")
  with loadSession_fields(1,3) [of w s u]
  have c1: "created s1 = created s" "objects s1 = objects s" by simp_all
  obtain inst s2 where i: "getClientInstance s1 = (inst, s2)"
    by (cases "getClientInstance s1")
  with getClientInstance_fields(1,3) [of s1]
  have c2: "created s2 = created s1" "objects s2 = objects s1"
    by simp_all
  have "created s \<le> created (snd (try_initializeClient_p1 w now s u))
      \<and> (r < created s \<longrightarrow> objects (snd (try_initializeClient_p1 w now s u)) r = objects s r)"
    using l i c1 c2
    by (auto simp: try_initializeClient_p1_def Let_def store_client_def
             split: option.splits prod.splits)
  then show "created s \<le> created (snd (try_initializeClient_p1 w now s u))"
    and "r < created s \<Longrightarrow> objects (snd (try_initializeClient_p1 w now s u)) r = objects s r"
    by simp_all
qed

lemma try_initializeClient_p1_stamp:
  assumes "construct_err w (created s) = None"
    and "\<forall>r cs. get_client s u = Some (r, cs) \<longrightarrow> status cs \<noteq> Ready"
  shows "lastActivity (objects (snd (try_initializeClient_p1 w now s u)) (created s)) = now"
proof -
  obtain saved s1 where l: "loadSession w s u = (saved, s1)"
    by (cases "loadSession w s u")
  with loadSession_fields(1) [of w s u]
  have c1: "created s1 = created s" by simp
  obtain inst s2 where i: "getClientInstance s1 = (inst, s2)"
    by (cases "getClientInstance s1")
  with getClientInstance_some [of s1] getClientInstance_fields(1) [of s1]
  obtain k where k: "inst = Some k" and c2: "created s2 = created s1"
    by auto
  from assms(2) have nr: "get_client s u = None \<or> (\<exists>r cs. get_client s u = Some (r, cs) \<and> status cs \<noteq> Ready)"
    by (cases "get_client s u") auto
  from nr l i k c1 c2 assms(1) show ?thesis
    by (auto simp: try_initializeClient_p1_def Let_def store_client_def new_clientState_def
             split: option.splits)
qed

lemma initializeClient_p1_objects:
  "created s \<le> created (snd (initializeClient_p1 w now s u retryCount))
   \<and> (\<forall>r < created s. objects (snd (initializeClient_p1 w now s u retryCount)) r = objects s r)"
proof (induction w now s u retryCount rule: initializeClient_p1.induct)
  case (1 w now s u retryCount)
  obtain res s1 where t: "try_initializeClient_p1 w now s u = (res, s1)"
    by (cases "try_initializeClient_p1 w now s u")
  from try_initializeClient_p1_objects(1) [where s = s and w = w and now = now and u = u] t
  have c1: "created s \<le> created s1" by simp
  have o1: "\<forall>r < created s. objects s1 r = objects s r"
    using try_initializeClient_p1_objects(2) [where s = s and w = w and now = now and u = u] t
    by simp
  define s2 where "s2 = s1\<lparr>console := console s1 @ [init_error_line u],
               activeClients := AList.delete u (activeClients s1)\<rparr>"
  define s3 where "s3 = s2\<lparr>retry_waits := retry_waits s2 @ [RETRY_DELAY]\<rparr>"
  have c3: "created s3 = created s1" "objects s3 = objects s1" "created s2 = created s1"
    "objects s2 = objects s1"
    by (simp_all add: s3_def s2_def)
  show ?case
  proof (cases "(\<exists>e. res = Threw e) \<and> retryCount < MAX_RETRIES")
    case True
    then obtain e where res: "res = Threw e" and lt: "retryCount < MAX_RETRIES"
      by auto
    define out where "out = initializeClient_p1 w (pause w RETRY_DELAY now) s3 u (retryCount + 1)"
    have step: "initializeClient_p1 w now s u retryCount = out"
      using t res lt
      by (simp add: initializeClient_p1.simps [of w now s u retryCount] Let_def
            out_def s2_def s3_def)
    have ih: "created s3 \<le> created (snd out) \<and> (\<forall>r < created s3. objects (snd out) r = objects s3 r)"
      unfolding out_def s3_def
      by (rule "1.IH" [OF t [symmetric] res s2_def lt])
    from ih c1 o1 c3 show ?thesis
      unfolding step by auto
  next
    case False
    then have "snd (initializeClient_p1 w now s u retryCount) = s1
               \<or> snd (initializeClient_p1 w now s u retryCount) = s2"
      using t
      by (cases res)
         (auto simp: initializeClient_p1.simps [of w now s u retryCount] Let_def s2_def)
    with c1 o1 c3 show ?thesis by auto
  qed
qed

lemma initializeClient_p1_stamps:
  assumes "\<forall>r. construct_err w r = None" and "\<forall>r. initialize_err w r \<noteq> None"
    and "\<forall>r cs. get_client s u = Some (r, cs) \<longrightarrow> status cs \<noteq> Ready"
    and "retryCount \<le> MAX_RETRIES"
  shows "now \<le> lastActivity (objects (snd (initializeClient_p1 w now s u retryCount)) (created s))
       \<and> (\<forall>k < MAX_RETRIES - retryCount.
            lastActivity (objects (snd (initializeClient_p1 w now s u retryCount))
                            (created s + k)) + RETRY_DELAY
              \<le> lastActivity (objects (snd (initializeClient_p1 w now s u retryCount))
                            (created s + Suc k)))"
  using assms
proof (induction w now s u retryCount rule: initializeClient_p1.induct)
  case (1 w now s u retryCount)
  obtain res s1 where t: "try_initializeClient_p1 w now s u = (res, s1)"
    by (cases "try_initializeClient_p1 w now s u")
  from "1.prems"(1,2) have f: "construct_err w (created s) \<noteq> None \<or> initialize_err w (created s) \<noteq> None"
    and ok: "construct_err w (created s) = None"
    by simp_all
  from try_initializeClient_p1_throws [OF f "1.prems"(3), of now] t ok
  obtain e where res: "res = Threw e" and c1: "created s1 = Suc (created s)"
    by auto
  from try_initializeClient_p1_stamp [OF ok "1.prems"(3), of now] t
  have st: "lastActivity (objects s1 (created s)) = now" by simp
  define s2 where "s2 = s1\<lparr>console := console s1 @ [init_error_line u],
               activeClients := AList.delete u (activeClients s1)\<rparr>"
  define s3 where "s3 = s2\<lparr>retry_waits := retry_waits s2 @ [RETRY_DELAY]\<rparr>"
  have c3: "created s3 = Suc (created s)" "objects s3 = objects s1" "objects s2 = objects s1"
    using c1 by (simp_all add: s3_def s2_def)
  have g3: "get_client s3 u = None"
    by (simp add: s3_def s2_def get_client_None AList.delete_notin_dom)
  show ?case
  proof (cases "retryCount < MAX_RETRIES")
    case True
    define out where "out = initializeClient_p1 w (pause w RETRY_DELAY now) s3 u (retryCount + 1)"
    have step: "initializeClient_p1 w now s u retryCount = out"
      using t res True
      by (simp add: initializeClient_p1.simps [of w now s u retryCount] Let_def
            out_def s2_def s3_def)
    from g3 have nr: "\<forall>r cs. get_client s3 u = Some (r, cs) \<longrightarrow> status cs \<noteq> Ready"
      by simp
    from True have le: "retryCount + 1 \<le> MAX_RETRIES" by simp
    have ih: "pause w RETRY_DELAY now \<le> lastActivity (objects (snd out) (created s3))
       \<and> (\<forall>k < MAX_RETRIES - (retryCount + 1).
            lastActivity (objects (snd out) (created s3 + k)) + RETRY_DELAY
              \<le> lastActivity (objects (snd out) (created s3 + Suc k)))"
      unfolding out_def s3_def
      by (rule "1.IH" [OF t [symmetric] res s2_def True "1.prems"(1,2) nr [unfolded s3_def] le])
    from initializeClient_p1_objects [of s3 w "pause w RETRY_DELAY now" u "retryCount + 1"] c3
    have keep: "objects (snd out) (created s) = objects s1 (created s)"
      by (simp add: out_def)
    with st have first: "lastActivity (objects (snd out) (created s)) = now"
      by simp
    have "now + RETRY_DELAY \<le> pause w RETRY_DELAY now"
      by (simp add: pause_def)
    with ih c3 first have zero: "lastActivity (objects (snd out) (created s)) + RETRY_DELAY
              \<le> lastActivity (objects (snd out) (created s + Suc 0))"
      by simp
    have "lastActivity (objects (snd out) (created s + k)) + RETRY_DELAY
              \<le> lastActivity (objects (snd out) (created s + Suc k))"
      if "k < MAX_RETRIES - retryCount" for k
    proof (cases k)
      case 0
      with zero show ?thesis by simp
    next
      case (Suc j)
      with that have "j < MAX_RETRIES - (retryCount + 1)" by simp
      with ih c3 Suc show ?thesis by simp
    qed
    with first show ?thesis
      unfolding step by simp
  next
    case False
    with "1.prems"(4) have eq: "retryCount = MAX_RETRIES"
      by simp
    have step: "initializeClient_p1 w now s u retryCount = (Threw e, s2)"
      using t res False
      by (simp add: initializeClient_p1.simps [of w now s u retryCount] Let_def s2_def)
    from st c3 eq show ?thesis
      unfolding step by simp
  qed
qed

subsection \<open>Eviction by the queue\<close>




subsection \<open>Teardown and the registry\<close>

text \<open>
  In \<open>main2.js\<close>, \<open>part_000\<close> and \<open>part_001\<close>, \<open>cleanupSession\<close> for a tenant with a record calls
  \<open>destroy()\<close> on the record's client, logs the error when \<open>destroy()\<close> throws, and removes the
  record whatever \<open>destroy()\<close> did. In \<open>part_002\<close> the record goes when the session directory
  could be removed, and stays when it could not.
\<close>

lemma cleanupSession_authoritative:
  assumes "get_client s u = Some (r, cs)"
  shows "get_client (cleanupSession_main2 w s u) u = None
       \<and> destroyed (cleanupSession_main2 w s u) = destroyed s @ [r]
       \<and> (destroy_err w r \<noteq> None \<longrightarrow>
            console (cleanupSession_main2 w s u) = console s @ [''Error during client cleanup:''])
       \<and> get_client (cleanupSession_p0 w s u) u = None
       \<and> destroyed (cleanupSession_p0 w s u) = destroyed s @ [r]
       \<and> (destroy_err w r \<noteq> None \<longrightarrow>
            console (cleanupSession_p0 w s u) = console s @ [''Error destroying client:''])
       \<and> get_client (cleanupSession_p1 w now s u) u = None
       \<and> destroyed (cleanupSession_p1 w now s u) = destroyed s @ [r]
       \<and> (destroy_err w r \<noteq> None \<longrightarrow>
            last (console (cleanupSession_p1 w now s u)) = ''Error destroying client for '' @ u)"
proof -
  have gone: "\<And>t. u \<notin> set (map fst (activeClients t)) \<Longrightarrow> get_client t u = None"
    by (simp add: get_client_None)
  have m: "get_client (cleanupSession_main2 w s u) u = None"
    by (rule gone) (simp add: keys_cleanupSession_main2)
  have p0: "get_client (cleanupSession_p0 w s u) u = None"
    by (rule gone) (simp add: keys_cleanupSession_p0)
  have p1: "get_client (cleanupSession_p1 w now s u) u = None"
    by (rule gone) (simp add: keys_cleanupSession_p1)
  have dm: "destroyed (cleanupSession_main2 w s u) = destroyed s @ [r]"
    using assms by (simp add: cleanupSession_main2_def Let_def)
  have cm: "destroy_err w r \<noteq> None \<longrightarrow>
            console (cleanupSession_main2 w s u) = console s @ [''Error during client cleanup:'']"
    using assms by (simp add: cleanupSession_main2_def Let_def)
  have d0: "destroyed (cleanupSession_p0 w s u) = destroyed s @ [r]"
    using assms by (simp add: cleanupSession_p0_def Let_def)
  have c0: "destroy_err w r \<noteq> None \<longrightarrow>
            console (cleanupSession_p0 w s u) = console s @ [''Error destroying client:'']"
    using assms by (simp add: cleanupSession_p0_def Let_def)
  have d1: "destroyed (cleanupSession_p1 w now s u) = destroyed s @ [r]"
    using assms by (simp add: cleanupSession_p1_def saveSession_def Let_def)
  have c1: "destroy_err w r \<noteq> None \<longrightarrow>
            last (console (cleanupSession_p1 w now s u)) = ''Error destroying client for '' @ u"
    using assms by (simp add: cleanupSession_p1_def saveSession_def Let_def)
  from m p0 p1 dm cm d0 c0 d1 c1 show ?thesis by simp
qed

lemma cleanupSession_p2_cases:
  "(remove_err w = None \<longrightarrow> get_client (cleanupSession_p2 w s u) u = None)
   \<and> (remove_err w \<noteq> None \<longrightarrow>
        get_client (cleanupSession_p2 w s u) u = get_client s u
        \<and> console (cleanupSession_p2 w s u) = console s @ [''Error cleaning up session for '' @ u])
   \<and> destroyed (cleanupSession_p2 w s u) = destroyed s"
proof -
  have "get_client (s\<lparr>activeClients := AList.delete u (activeClients s)\<rparr>) u = None"
    by (rule get_client_deleted)
  moreover have "get_client (s\<lparr>console := l\<rparr>) u = get_client s u" for l
    by (simp add: get_client_def split: option.splits)
  ultimately show ?thesis
    by (simp add: cleanupSession_p2_def)
qed

subsection \<open>The authorization header\<close>

lemma split_on_unfold:
  "split_on c h =
     takeWhile (\<lambda>x. x \<noteq> c) h #
       (case dropWhile (\<lambda>x. x \<noteq> c) h of [] \<Rightarrow> [] | x # rest \<Rightarrow> split_on c rest)"
  by (induction h) (auto split: list.splits)

lemma split_on_nonempty: "split_on c h \<noteq> []"
  by (subst split_on_unfold) simp

lemma second_piece:
  "(case split_on c h of scheme # token # rest \<Rightarrow> token | _ \<Rightarrow> [])
     = takeWhile (\<lambda>x. x \<noteq> c) (tl (dropWhile (\<lambda>x. x \<noteq> c) h))"
proof (cases "dropWhile (\<lambda>x. x \<noteq> c) h")
  case Nil
  have "split_on c h = [takeWhile (\<lambda>x. x \<noteq> c) h]"
    using split_on_unfold [of c h] unfolding Nil by simp
  then show ?thesis unfolding Nil by simp
next
  case (Cons x rest)
  have "split_on c h = takeWhile (\<lambda>x. x \<noteq> c) h # split_on c rest"
    using split_on_unfold [of c h] unfolding Cons by simp
  moreover have "split_on c rest = takeWhile (\<lambda>x. x \<noteq> c) rest #
       (case dropWhile (\<lambda>x. x \<noteq> c) rest of [] \<Rightarrow> [] | x # rest' \<Rightarrow> split_on c rest')"
    by (rule split_on_unfold)
  ultimately show ?thesis unfolding Cons by simp
qed

lemma authMiddleware_None: "authMiddleware a = None \<longleftrightarrow> lacks_token a"
proof (cases a)
  case None
  then show ?thesis by (simp add: authMiddleware_def lacks_token_def)
next
  case (Some h)
  have "authMiddleware (Some h) = None \<longleftrightarrow>
        (case split_on CHR '' '' h of scheme # token # rest \<Rightarrow> token | _ \<Rightarrow> []) = []"
    by (simp add: authMiddleware_def split: list.splits)
  with Some show ?thesis
    by (simp add: second_piece lacks_token_def bearer_token_def)
qed

subsection \<open>The sample registries\<close>

lemma handshaking_main2_fields:
  "activeClients handshaking_main2 = [(''a'', 0)]"
  "objects handshaking_main2 0 = new_clientState Initializing 0 (Some Unsettled) True"
  "created handshaking_main2 = 1"
  "destroyed handshaking_main2 = []"
  "console handshaking_main2 = []"
  by (simp_all add: handshaking_main2_def initializeClient_main2_def admission_main2_def
        start_client_main2_def get_client_def empty_server_def
        MAX_INSTANCES_def store_client_def calm_def Let_def)

lemma handshaking_p0_fields:
  "activeClients handshaking_p0 = [(''a'', 0)]"
  "objects handshaking_p0 0 = new_clientState Initializing 0 (Some Unsettled) True"
  "created handshaking_p0 = 1"
  "destroyed handshaking_p0 = []"
  by (simp_all add: handshaking_p0_def initializeClient_p0.simps try_initializeClient_p0_def
        admit_p0_def evict_oldest_p0_def start_client_p0_def
        get_client_def empty_server_def MAX_INSTANCES_def store_client_def calm_def Let_def)

lemma handshaking_main2_record:
  "get_client handshaking_main2 ''a'' = Some (0, new_clientState Initializing 0 (Some Unsettled) True)"
  by (simp add: get_client_def handshaking_main2_fields)

lemma handshaking_p2_record:
  "get_client handshaking_p2 ''a'' = Some (0, new_clientState Initializing 0 None False)"
  by (simp add: handshaking_p2_def initializeClient_p2_def get_client_def empty_server_def
        store_client_def calm_def Let_def)

lemma auth_bearer_a: "authMiddleware (Some ''Bearer a'') = Some ''a''"
  by (simp add: authMiddleware_def)




subsection \<open>The inactivity sweep\<close>







section \<open>Claims\<close>




text \<open>
  C8. Teardown is to remove the record whatever fails, and to log the failure. The
  \<open>cleanupSession\<close> of \<open>part_002\<close> does not: its \<open>delete\<close> is inside the \<open>try\<close>, after
  \<open>fs.remove\<close>. When the session directory of the handshaking tenant \<open>a\<close> cannot be removed,
  the error is logged and the record of \<open>a\<close> is still in the registry. On the same registry
  the \<open>cleanupSession\<close> of \<open>main2.js\<close>, \<open>part_000\<close> and \<open>part_001\<close>, whose \<open>delete\<close> comes after the
  \<open>try\<close>, removes the record although \<open>destroy()\<close> throws.
\<close>

theorem cleanupSession_p2_keeps_record:
  "get_client handshaking_p2 ''a'' = Some (0, new_clientState Initializing 0 None False)
   \<and> remove_err locked = Some ''EBUSY: resource busy or locked''
   \<and> get_client (cleanupSession_p2 locked handshaking_p2 ''a'') ''a''
        = Some (0, new_clientState Initializing 0 None False)
   \<and> activeClients (cleanupSession_p2 locked handshaking_p2 ''a'') = [(''a'', 0)]
   \<and> console (cleanupSession_p2 locked handshaking_p2 ''a'') = [''Error cleaning up session for a'']
   \<and> destroy_err stuck 0 = Some ''Target closed''
   \<and> get_client (cleanupSession_main2 stuck handshaking_p2 ''a'') ''a'' = None
   \<and> get_client (cleanupSession_p0 stuck handshaking_p2 ''a'') ''a'' = None
   \<and> get_client (cleanupSession_p1 stuck 5 handshaking_p2 ''a'') ''a'' = None"
proof -
  have l: "remove_err locked = Some ''EBUSY: resource busy or locked''"
    by (simp add: locked_def)
  have k: "destroy_err stuck 0 = Some ''Target closed''"
    by (simp add: stuck_def)
  have a: "activeClients handshaking_p2 = [(''a'', 0)]" and c: "console handshaking_p2 = []"
    by (simp_all add: handshaking_p2_def initializeClient_p2_def empty_server_def
          store_client_def calm_def Let_def)
  from cleanupSession_p2_cases [of locked handshaking_p2 "''a''"] l handshaking_p2_record c
  have 1: "get_client (cleanupSession_p2 locked handshaking_p2 ''a'') ''a''
        = Some (0, new_clientState Initializing 0 None False)"
    and 2: "console (cleanupSession_p2 locked handshaking_p2 ''a'') = [''Error cleaning up session for a'']"
    by simp_all
  have 3: "activeClients (cleanupSession_p2 locked handshaking_p2 ''a'') = [(''a'', 0)]"
    using l a by (simp add: cleanupSession_p2_def)
  note s = cleanupSession_authoritative [OF handshaking_p2_record, of stuck 5]
  from handshaking_p2_record l 1 2 3 k s show ?thesis
    by simp
qed

text \<open>
  C10. Every state-changing route (\<open>/init\<close>, \<open>/send-message\<close>, \<open>/disconnect\<close>) sits behind
  \<open>authMiddleware\<close>. For a request without a bearer token the route answers 401 with
  \<open>Authorization token required\<close>, and the server state after the request is the state
  before it: nothing is created, changed or destroyed. This holds for the whole request
  and for the part of it that runs when the request arrives.
\<close>

theorem unauthorized_changes_nothing:
  assumes "lacks_token authorization"
  shows "post_init_main2 w now authorization s
           = (Reply 401 (ErrorBody ''Authorization token required'' None), s)
       \<and> post_send_message_main2 w now authorization number s
           = (Reply 401 (ErrorBody ''Authorization token required'' None), s)
       \<and> post_disconnect_main2 w authorization s
           = (Reply 401 (ErrorBody ''Authorization token required'' None), s)
       \<and> post_init_p0 w now authorization s
           = (Reply 401 (ErrorBody ''Authorization token required'' None), s)
       \<and> post_send_message_p0 w now authorization number s
           = (Reply 401 (ErrorBody ''Authorization token required'' None), s)
       \<and> post_disconnect_p0 w authorization s
           = (Reply 401 (ErrorBody ''Authorization token required'' None), s)
       \<and> post_disconnect_p1 w now authorization s
           = (Reply 401 (ErrorBody ''Authorization token required'' None), s)
       \<and> post_init_p2 w now authorization s
           = (Reply 401 (ErrorBody ''Authorization token required'' None), s)
       \<and> post_send_message_p2 w now authorization number message s
           = (Reply 401 (ErrorBody ''Authorization token required'' None), s)
       \<and> post_init_begin_main2 now authorization s
           = (Reply 401 (ErrorBody ''Authorization token required'' None), s)
       \<and> post_send_message_begin_main2 w now authorization number s
           = (Reply 401 (ErrorBody ''Authorization token required'' None), s)"
proof -
  from assms have "authMiddleware authorization = None"
    by (simp add: authMiddleware_None)
  then have "with_auth authorization s handler
               = (Reply 401 (ErrorBody ''Authorization token required'' None), s)" for handler
    by (simp add: with_auth_def)
  then show ?thesis
    by (simp add: post_init_main2_def post_send_message_main2_def post_disconnect_main2_def
          post_init_p0_def post_send_message_p0_def post_disconnect_p0_def
          post_disconnect_p1_def post_init_p2_def post_send_message_p2_def
          post_init_begin_main2_def post_send_message_begin_main2_def)
qed

text \<open>A header that holds only the scheme word.\<close>

theorem unauthorized_changes_nothing_witness:
  "lacks_token (Some ''Bearer'')
   \<and> post_init_main2 calm 0 (Some ''Bearer'') empty_server
        = (Reply 401 (ErrorBody ''Authorization token required'' None), empty_server)
   \<and> post_send_message_p2 calm 0 (Some ''Bearer'') (Some ''1234'') (Some ''hi'') empty_server
        = (Reply 401 (ErrorBody ''Authorization token required'' None), empty_server)"
proof -
  have h: "lacks_token (Some ''Bearer'')"
    by (simp add: lacks_token_def bearer_token_def)
  from unauthorized_changes_nothing
         [OF h, where w = calm and now = 0 and s = empty_server
            and number = "Some ''1234''" and message = "Some ''hi''"] h
  show ?thesis by simp
qed

text \<open>
  C3, as amended. \<open>initializeClient\<close> is idempotent for a tenant whose record is READY: it
  returns the existing record and builds no client and no record (\<open>main2.js\<close> also refreshes
  \<open>lastActivity\<close>). For a tenant whose record is in any state but \<open>disconnected\<close>, the
  \<open>/init\<close> route answers from the existing record and does not call \<open>initializeClient\<close>.
\<close>

theorem acquire_reuses_existing:
  assumes "get_client s u = Some (r, cs)"
  shows "(status cs = Ready \<longrightarrow>
            initializeClient_main2 w now s u
              = (Returned r, set_object r (\<lambda>c. c\<lparr>lastActivity := now\<rparr>) s)
          \<and> created (snd (initializeClient_main2 w now s u)) = created s
          \<and> activeClients (snd (initializeClient_main2 w now s u)) = activeClients s
          \<and> initializeClient_p0 w now sessionExists s u retryCount = (Returned r, s))
       \<and> (status cs \<noteq> Disconnected \<and> authMiddleware authorization = Some u \<longrightarrow>
            post_init_main2 w now authorization s = (Reply 200 (StatusBody (status cs) (qrCode cs)), s)
          \<and> post_init_p0 w now authorization s = (Reply 200 (StatusBody (status cs) (qrCode cs)), s))"
  using assms
  by (simp add: initializeClient_main2_def admission_main2_def initializeClient_p0.simps
        try_initializeClient_p0_def post_init_main2_def post_init_p0_def with_auth_def
        set_object_def Let_def)

text \<open>Tenant \<open>a\<close> is ready and asks again.\<close>

theorem acquire_reuses_existing_witness:
  "get_client serving_main2 ''a'' = Some (0, objects serving_main2 0)
   \<and> status (objects serving_main2 0) = Ready
   \<and> status (objects serving_main2 0) \<noteq> Disconnected
   \<and> authMiddleware (Some ''Bearer a'') = Some ''a''
   \<and> fst (initializeClient_main2 calm 2000 serving_main2 ''a'') = Returned 0
   \<and> created (snd (initializeClient_main2 calm 2000 serving_main2 ''a'')) = created serving_main2
   \<and> initializeClient_p0 calm 2000 True serving_main2 ''a'' 0 = (Returned 0, serving_main2)
   \<and> post_init_main2 calm 2000 (Some ''Bearer a'') serving_main2
        = (Reply 200 (StatusBody Ready None), serving_main2)"
proof -
  have a: "activeClients serving_main2 = [(''a'', 0)]"
    by (simp add: serving_main2_def on_ready_main2_def processQueue_resume_def settle_def
          set_object_def handshaking_main2_fields Let_def handshaking_main2_def
          initializeClient_main2_def admission_main2_def start_client_main2_def
          get_client_def empty_server_def MAX_INSTANCES_def store_client_def calm_def)
  have o: "objects serving_main2 0
             = \<lparr>status = Ready, qrCode = None, lastActivity = 1000, readyPromise = Some Resolved,
                pool_instance = None, initTimeout = False\<rparr>"
    by (simp add: serving_main2_def on_ready_main2_def processQueue_resume_def settle_def
          set_object_def handshaking_main2_fields Let_def handshaking_main2_def
          initializeClient_main2_def admission_main2_def start_client_main2_def
          get_client_def empty_server_def MAX_INSTANCES_def
          store_client_def calm_def new_clientState_def)
  have g: "get_client serving_main2 ''a'' = Some (0, objects serving_main2 0)"
    by (simp add: get_client_def a)
  from acquire_reuses_existing
         [OF g, where w = calm and now = 2000 and sessionExists = True and retryCount = 0
            and authorization = "Some ''Bearer a''"] g o auth_bearer_a
  show ?thesis by (simp add: set_object_def)
qed

text \<open>
  The claim as stated fails for a record in progress: a second \<open>initializeClient\<close> for the
  handshaking tenant \<open>a\<close> builds a second client and replaces the record; the caller
  waits for the promise of the new client, not for the one in flight.
\<close>

theorem acquire_in_progress_counterexample:
  "get_client handshaking_main2 ''a'' = Some (0, new_clientState Initializing 0 (Some Unsettled) True)
   \<and> fst (initializeClient_main2 calm 1 handshaking_main2 ''a'') = Awaiting 1
   \<and> created handshaking_main2 = 1
   \<and> created (snd (initializeClient_main2 calm 1 handshaking_main2 ''a'')) = 2
   \<and> activeClients (snd (initializeClient_main2 calm 1 handshaking_main2 ''a'')) = [(''a'', 1)]
   \<and> fst (initializeClient_p0 calm 1 True handshaking_p0 ''a'' 0) = Awaiting 1
   \<and> created (snd (initializeClient_p0 calm 1 True handshaking_p0 ''a'' 0)) = 2
   \<and> activeClients (snd (initializeClient_p0 calm 1 True handshaking_p0 ''a'' 0)) = [(''a'', 1)]"
  by (simp add: handshaking_main2_record initializeClient_main2_def admission_main2_def
        start_client_main2_def get_client_def
        handshaking_main2_fields handshaking_p0_fields initializeClient_p0.simps
        try_initializeClient_p0_def admit_p0_def evict_oldest_p0_def start_client_p0_def
        new_clientState_def MAX_INSTANCES_def store_client_def calm_def Let_def)

text \<open>
  C4, as amended. In \<open>part_002\<close>, for every tenant whose record is absent or whose state is
  not READY, \<open>/send-message\<close> fails with a 400 reply and leaves the whole server state
  unchanged: no record is created or destroyed and no field of any record is written.
\<close>

theorem send_message_p2_not_ready:
  assumes "authMiddleware authorization = Some u"
      and "get_client s u = None \<or> (\<exists>r cs. get_client s u = Some (r, cs) \<and> status cs \<noteq> Ready)"
  shows "snd (post_send_message_p2 w now authorization number message s) = s
       \<and> fst (post_send_message_p2 w now authorization number message s) =
           Reply 400 (ErrorBody
             (if number \<in> {None, Some []} \<or> message \<in> {None, Some []}
              then ''Phone number and message are required''
              else ''WhatsApp client not ready. Please initialize first.'') None)"
  using assms by (auto simp: post_send_message_p2_def with_auth_def)

text \<open>Tenant \<open>a\<close> is still handshaking when the message is posted.\<close>

theorem send_message_p2_not_ready_witness:
  "authMiddleware (Some ''Bearer a'') = Some ''a''
   \<and> (\<exists>r cs. get_client handshaking_p2 ''a'' = Some (r, cs) \<and> status cs \<noteq> Ready)
   \<and> post_send_message_p2 calm 5 (Some ''Bearer a'') (Some ''1234'') (Some ''hi'') handshaking_p2
        = (Reply 400 (ErrorBody ''WhatsApp client not ready. Please initialize first.'' None),
           handshaking_p2)"
proof -
  note g = handshaking_p2_record
  then have h: "\<exists>r cs. get_client handshaking_p2 ''a'' = Some (r, cs) \<and> status cs \<noteq> Ready"
    by (simp add: new_clientState_def)
  from send_message_p2_not_ready
         [OF auth_bearer_a disjI2, OF h, where w = calm and now = 5
            and number = "Some ''1234''" and message = "Some ''hi''"] h auth_bearer_a
  show ?thesis by (simp add: prod_eq_iff)
qed

text \<open>
  The claim as stated fails on \<open>main2.js\<close> (and likewise on \<open>part_000\<close>), where the route calls
  \<open>initializeClient\<close> first and its \<open>catch\<close> block runs \<open>cleanupSession\<close>: tenant \<open>a\<close> is
  handshaking, the driver cannot start a second client, the request fails with 500, and
  the record of \<open>a\<close> is gone.
\<close>

theorem send_message_main2_counterexample:
  "get_client handshaking_main2 ''a'' = Some (0, new_clientState Initializing 0 (Some Unsettled) True)
   \<and> fst (post_send_message_main2 failing 5 (Some ''Bearer a'') (Some ''1234'') handshaking_main2)
       = Reply 500 (ErrorBody ''Failed to send message'' (Some ''Failed to launch the browser process''))
   \<and> get_client (snd (post_send_message_main2 failing 5 (Some ''Bearer a'') (Some ''1234'')
         handshaking_main2)) ''a'' = None
   \<and> snd (post_send_message_main2 failing 5 (Some ''Bearer a'') (Some ''1234'') handshaking_main2)
       \<noteq> handshaking_main2"
proof -
  have r: "get_client (snd (post_send_message_main2 failing 5 (Some ''Bearer a'') (Some ''1234'')
         handshaking_main2)) ''a'' = None"
    by code_simp
  have f: "fst (post_send_message_main2 failing 5 (Some ''Bearer a'') (Some ''1234'') handshaking_main2)
       = Reply 500 (ErrorBody ''Failed to send message'' (Some ''Failed to launch the browser process''))"
    by code_simp
  from r handshaking_main2_record
  have "snd (post_send_message_main2 failing 5 (Some ''Bearer a'') (Some ''1234'') handshaking_main2)
       \<noteq> handshaking_main2"
    by auto
  with r f handshaking_main2_record show ?thesis by simp
qed

text \<open>
  C6, as amended. On the driver's \<open>disconnected\<close> event, in every state, the handler sets
  the status of its client state to \<open>disconnected\<close> and the tenant has no record in the
  registry afterwards: \<open>main2.js\<close> runs the teardown \<open>cleanupSession\<close>, which destroys the
  client of the tenant's record, and \<open>part_000\<close> deletes the entry without calling
  \<open>destroy()\<close>. The handler leaves the completion handle as it was.
\<close>

theorem disconnected_event:
  "status (objects (on_disconnected_main2 w u r s) r) = Disconnected
   \<and> get_client (on_disconnected_main2 w u r s) u = None
   \<and> destroyed (on_disconnected_main2 w u r s)
        = destroyed s @ (case get_client s u of None \<Rightarrow> [] | Some (r', cs) \<Rightarrow> [r'])
   \<and> readyPromise (objects (on_disconnected_main2 w u r s) r) = readyPromise (objects s r)
   \<and> status (objects (on_disconnected_p0 u r s) r) = Disconnected
   \<and> get_client (on_disconnected_p0 u r s) u = None
   \<and> destroyed (on_disconnected_p0 u r s) = destroyed s
   \<and> readyPromise (objects (on_disconnected_p0 u r s) r) = readyPromise (objects s r)"
proof -
  have gone: "\<And>t. u \<notin> set (map fst (activeClients t)) \<Longrightarrow> get_client t u = None"
    by (simp add: get_client_None)
  have m: "get_client (on_disconnected_main2 w u r s) u = None"
    unfolding on_disconnected_main2_def by (rule gone) (simp add: keys_cleanupSession_main2)
  have p: "get_client (on_disconnected_p0 u r s) u = None"
    unfolding on_disconnected_p0_def by (rule gone) (simp add: Let_def AList.delete_keys)
  have o: "objects (cleanupSession_main2 w t u) = objects t" for t
    by (simp add: cleanupSession_main2_def Let_def split: option.splits)
  have d: "destroyed (on_disconnected_main2 w u r s)
        = destroyed s @ (case get_client s u of None \<Rightarrow> [] | Some (r', cs) \<Rightarrow> [r'])"
    by (simp add: on_disconnected_main2_def cleanupSession_main2_def get_client_def set_object_def
          Let_def split: option.splits)
  show ?thesis
    using m p d by (simp add: on_disconnected_main2_def on_disconnected_p0_def o set_object_def Let_def)
qed

text \<open>The event on the client of the handshaking tenant \<open>a\<close>.\<close>

theorem disconnected_event_witness:
  "status (objects (on_disconnected_main2 calm ''a'' 0 handshaking_main2) 0) = Disconnected
   \<and> get_client (on_disconnected_main2 calm ''a'' 0 handshaking_main2) ''a'' = None
   \<and> destroyed (on_disconnected_main2 calm ''a'' 0 handshaking_main2) = [0]"
proof -
  have "destroyed handshaking_main2 = []"
    by (simp add: handshaking_main2_fields)
  with disconnected_event [of calm "''a''" 0 handshaking_main2] handshaking_main2_record
  show ?thesis by simp
qed

text \<open>
  The claim as stated fails: the completion handle of the handshaking tenant is pending
  before the event and still pending after it, in \<open>main2.js\<close> and in \<open>part_000\<close>; no
  handler rejects it.
\<close>

theorem disconnected_event_counterexample:
  "readyPromise (objects handshaking_main2 0) = Some Unsettled
   \<and> readyPromise (objects (on_disconnected_main2 calm ''a'' 0 handshaking_main2) 0) = Some Unsettled
   \<and> readyPromise (objects handshaking_p0 0) = Some Unsettled
   \<and> readyPromise (objects (on_disconnected_p0 ''a'' 0 handshaking_p0) 0) = Some Unsettled"
  by (simp add: on_disconnected_main2_def on_disconnected_p0_def cleanupSession_main2_def
        set_object_def Let_def get_client_def handshaking_main2_fields handshaking_p0_fields
        new_clientState_def)

text \<open>
  C9, as amended. \<open>/disconnect\<close> for a tenant without a record answers
  \<open>{status: 'disconnected'}\<close> and changes nothing, in every variant that has the route. For
  a tenant with a record it answers the same and the record is removed, provided
  \<open>client.destroy()\<close> resolves; in \<open>part_001\<close>, whose route only runs \<open>cleanupSession\<close>, it does
  so whatever \<open>destroy()\<close> does. In \<open>main2.js\<close> and \<open>part_000\<close> a \<open>destroy()\<close> that throws makes
  the route answer 500 with \<open>Failed to disconnect\<close>, and the record stays.
\<close>

theorem disconnect_acknowledged:
  assumes "authMiddleware authorization = Some u"
  shows "(get_client s u = None \<longrightarrow>
            post_disconnect_main2 w authorization s = (Reply 200 DisconnectedBody, s)
          \<and> post_disconnect_p0 w authorization s = (Reply 200 DisconnectedBody, s)
          \<and> post_disconnect_p1 w now authorization s = (Reply 200 DisconnectedBody, s))
       \<and> (\<forall>r cs. get_client s u = Some (r, cs) \<and> destroy_err w r = None \<longrightarrow>
            fst (post_disconnect_main2 w authorization s) = Reply 200 DisconnectedBody
          \<and> get_client (snd (post_disconnect_main2 w authorization s)) u = None
          \<and> fst (post_disconnect_p0 w authorization s) = Reply 200 DisconnectedBody
          \<and> get_client (snd (post_disconnect_p0 w authorization s)) u = None)
       \<and> (\<forall>r cs e. get_client s u = Some (r, cs) \<and> destroy_err w r = Some e \<longrightarrow>
            post_disconnect_main2 w authorization s
              = (Reply 500 (ErrorBody ''Failed to disconnect'' (Some e)),
                 s\<lparr>destroyed := destroyed s @ [r]\<rparr>)
          \<and> post_disconnect_p0 w authorization s
              = (Reply 500 (ErrorBody ''Failed to disconnect'' (Some e)),
                 s\<lparr>destroyed := destroyed s @ [r]\<rparr>))
       \<and> fst (post_disconnect_p1 w now authorization s) = Reply 200 DisconnectedBody
       \<and> get_client (snd (post_disconnect_p1 w now authorization s)) u = None"
proof -
  have gone: "\<And>t. u \<notin> set (map fst (activeClients t)) \<Longrightarrow> get_client t u = None"
    by (simp add: get_client_None)
  have absent: "get_client s u = None \<longrightarrow>
            post_disconnect_main2 w authorization s = (Reply 200 DisconnectedBody, s)
          \<and> post_disconnect_p0 w authorization s = (Reply 200 DisconnectedBody, s)
          \<and> post_disconnect_p1 w now authorization s = (Reply 200 DisconnectedBody, s)"
    using assms
    by (simp add: post_disconnect_main2_def post_disconnect_p0_def post_disconnect_p1_def
          with_auth_def cleanupSession_p1_def)
  have m: "get_client (cleanupSession_main2 w t u) u = None" for t
    by (rule gone) (simp add: keys_cleanupSession_main2)
  have p0: "get_client (cleanupSession_p0 w t u) u = None" for t
    by (rule gone) (simp add: keys_cleanupSession_p0)
  have p1: "get_client (cleanupSession_p1 w now s u) u = None"
    by (rule gone) (simp add: keys_cleanupSession_p1)
  have present: "\<forall>r cs. get_client s u = Some (r, cs) \<and> destroy_err w r = None \<longrightarrow>
            fst (post_disconnect_main2 w authorization s) = Reply 200 DisconnectedBody
          \<and> get_client (snd (post_disconnect_main2 w authorization s)) u = None
          \<and> fst (post_disconnect_p0 w authorization s) = Reply 200 DisconnectedBody
          \<and> get_client (snd (post_disconnect_p0 w authorization s)) u = None"
    using assms
    by (simp add: post_disconnect_main2_def post_disconnect_p0_def with_auth_def Let_def m p0)
  have refused: "\<forall>r cs e. get_client s u = Some (r, cs) \<and> destroy_err w r = Some e \<longrightarrow>
            post_disconnect_main2 w authorization s
              = (Reply 500 (ErrorBody ''Failed to disconnect'' (Some e)),
                 s\<lparr>destroyed := destroyed s @ [r]\<rparr>)
          \<and> post_disconnect_p0 w authorization s
              = (Reply 500 (ErrorBody ''Failed to disconnect'' (Some e)),
                 s\<lparr>destroyed := destroyed s @ [r]\<rparr>)"
    using assms
    by (simp add: post_disconnect_main2_def post_disconnect_p0_def with_auth_def Let_def)
  have pooled: "fst (post_disconnect_p1 w now authorization s) = Reply 200 DisconnectedBody
       \<and> get_client (snd (post_disconnect_p1 w now authorization s)) u = None"
    using assms by (simp add: post_disconnect_p1_def with_auth_def p1)
  from absent present refused pooled show ?thesis by blast
qed

text \<open>
  A tenant without a record, a tenant whose client can be destroyed, and one whose client
  cannot.
\<close>

theorem disconnect_acknowledged_witness:
  "authMiddleware (Some ''Bearer a'') = Some ''a''
   \<and> get_client empty_server ''a'' = None
   \<and> post_disconnect_main2 calm (Some ''Bearer a'') empty_server = (Reply 200 DisconnectedBody, empty_server)
   \<and> get_client handshaking_main2 ''a'' = Some (0, new_clientState Initializing 0 (Some Unsettled) True)
   \<and> destroy_err calm 0 = None
   \<and> fst (post_disconnect_main2 calm (Some ''Bearer a'') handshaking_main2) = Reply 200 DisconnectedBody
   \<and> get_client (snd (post_disconnect_main2 calm (Some ''Bearer a'') handshaking_main2)) ''a'' = None
   \<and> destroy_err stuck 0 = Some ''Target closed''
   \<and> fst (post_disconnect_main2 stuck (Some ''Bearer a'') handshaking_main2)
        = Reply 500 (ErrorBody ''Failed to disconnect'' (Some ''Target closed''))"
proof -
  have e: "get_client empty_server ''a'' = None"
    by (simp add: get_client_def empty_server_def)
  have d: "destroy_err calm 0 = None"
    by (simp add: calm_def)
  have k: "destroy_err stuck 0 = Some ''Target closed''"
    by (simp add: stuck_def)
  from disconnect_acknowledged [OF auth_bearer_a, where s = empty_server and w = calm] e
  have 1: "post_disconnect_main2 calm (Some ''Bearer a'') empty_server = (Reply 200 DisconnectedBody, empty_server)"
    by simp
  from disconnect_acknowledged [OF auth_bearer_a, where s = handshaking_main2 and w = calm]
       handshaking_main2_record d
  have 2: "fst (post_disconnect_main2 calm (Some ''Bearer a'') handshaking_main2) = Reply 200 DisconnectedBody
   \<and> get_client (snd (post_disconnect_main2 calm (Some ''Bearer a'') handshaking_main2)) ''a'' = None"
    by simp
  from disconnect_acknowledged [OF auth_bearer_a, where s = handshaking_main2 and w = stuck]
       handshaking_main2_record k
  have 3: "fst (post_disconnect_main2 stuck (Some ''Bearer a'') handshaking_main2)
        = Reply 500 (ErrorBody ''Failed to disconnect'' (Some ''Target closed''))"
    by simp
  from auth_bearer_a e 1 handshaking_main2_record d 2 k 3 show ?thesis by simp
qed

text \<open>
  The claim as stated fails on \<open>main2.js\<close> (and likewise on \<open>part_000\<close>): when \<open>destroy()\<close>
  throws, the route answers 500 with \<open>Failed to disconnect\<close> and the record stays.
\<close>

theorem disconnect_main2_counterexample:
  "get_client handshaking_main2 ''a'' = Some (0, new_clientState Initializing 0 (Some Unsettled) True)
   \<and> fst (post_disconnect_main2 stuck (Some ''Bearer a'') handshaking_main2)
        = Reply 500 (ErrorBody ''Failed to disconnect'' (Some ''Target closed''))
   \<and> get_client (snd (post_disconnect_main2 stuck (Some ''Bearer a'') handshaking_main2)) ''a''
        = Some (0, new_clientState Initializing 0 (Some Unsettled) True)"
  by (simp add: post_disconnect_main2_def with_auth_def auth_bearer_a stuck_def Let_def
        get_client_def handshaking_main2_fields)







text \<open>
  C5. In \<open>part_000\<close> and \<open>part_001\<close>, when every attempt fails, at \<open>new Client(...)\<close> or at
  \<open>client.initialize()\<close>, and the tenant has no READY record to reuse, \<open>initializeClient\<close>
  makes the first attempt and \<open>MAX_RETRIES = 2\<close> retries (three failures are logged), waits
  for a timer of the same 2000 ms before each retry and for no other such timer, builds
  its client anew in each attempt (three clients are built when construction succeeds),
  the client of a retry at least 2000 ms after the client of the attempt before it (each is
  stamped with the clock of its construction), then rejects with the error of the last
  attempt, and the tenant has no record in the registry afterwards.
\<close>

theorem retries_then_rejects:
  assumes "\<forall>r. construct_err w r \<noteq> None \<or> initialize_err w r \<noteq> None"
    and "get_client s u = None \<or> (\<exists>r cs. get_client s u = Some (r, cs) \<and> status cs \<noteq> Ready)"
  shows "(\<exists>e r. (construct_err w r = Some e \<or> initialize_err w r = Some e)
            \<and> fst (initializeClient_p0 w now sessionExists s u 0) = Threw e)
       \<and> get_client (snd (initializeClient_p0 w now sessionExists s u 0)) u = None
       \<and> count_list (console (snd (initializeClient_p0 w now sessionExists s u 0))) (init_error_line u)
           = count_list (console s) (init_error_line u) + 1 + MAX_RETRIES
       \<and> ((\<forall>r. construct_err w r = None) \<longrightarrow>
            created (snd (initializeClient_p0 w now sessionExists s u 0)) = created s + 1 + MAX_RETRIES)
       \<and> retry_waits (snd (initializeClient_p0 w now sessionExists s u 0))
           = retry_waits s @ replicate MAX_RETRIES RETRY_DELAY
       \<and> ((\<forall>r. construct_err w r = None) \<longrightarrow>
            (\<forall>k < MAX_RETRIES.
               lastActivity (objects (snd (initializeClient_p0 w now sessionExists s u 0))
                               (created s + k)) + RETRY_DELAY
                 \<le> lastActivity (objects (snd (initializeClient_p0 w now sessionExists s u 0))
                                  (created s + Suc k))))
       \<and> (\<exists>e r. (construct_err w r = Some e \<or> initialize_err w r = Some e)
            \<and> fst (initializeClient_p1 w now s u 0) = Threw e)
       \<and> get_client (snd (initializeClient_p1 w now s u 0)) u = None
       \<and> count_list (console (snd (initializeClient_p1 w now s u 0))) (init_error_line u)
           = count_list (console s) (init_error_line u) + 1 + MAX_RETRIES
       \<and> ((\<forall>r. construct_err w r = None) \<longrightarrow>
            created (snd (initializeClient_p1 w now s u 0)) = created s + 1 + MAX_RETRIES)
       \<and> retry_waits (snd (initializeClient_p1 w now s u 0))
           = retry_waits s @ replicate MAX_RETRIES RETRY_DELAY
       \<and> ((\<forall>r. construct_err w r = None) \<longrightarrow>
            (\<forall>k < MAX_RETRIES.
               lastActivity (objects (snd (initializeClient_p1 w now s u 0)) (created s + k))
                   + RETRY_DELAY
                 \<le> lastActivity (objects (snd (initializeClient_p1 w now s u 0))
                                  (created s + Suc k))))"
proof -
  from assms(2) have n: "\<forall>r cs. get_client s u = Some (r, cs) \<longrightarrow> status cs \<noteq> Ready"
    by auto
  have z: "(0::nat) \<le> MAX_RETRIES" by simp
  note a = initializeClient_p0_gives_up [OF assms(1) n z, of now sessionExists]
  note b = initializeClient_p1_gives_up [OF assms(1) n z, of now]
  have c: "\<forall>k < MAX_RETRIES.
               lastActivity (objects (snd (initializeClient_p0 w now sessionExists s u 0))
                               (created s + k)) + RETRY_DELAY
                 \<le> lastActivity (objects (snd (initializeClient_p0 w now sessionExists s u 0))
                                  (created s + Suc k))"
    and d: "\<forall>k < MAX_RETRIES.
               lastActivity (objects (snd (initializeClient_p1 w now s u 0)) (created s + k))
                   + RETRY_DELAY
                 \<le> lastActivity (objects (snd (initializeClient_p1 w now s u 0))
                                  (created s + Suc k))"
    if ok: "\<forall>r. construct_err w r = None"
  proof -
    from assms(1) ok have i: "\<forall>r. initialize_err w r \<noteq> None"
      by simp
    from initializeClient_p0_stamps [OF ok i n z, of now sessionExists]
    show "\<forall>k < MAX_RETRIES.
               lastActivity (objects (snd (initializeClient_p0 w now sessionExists s u 0))
                               (created s + k)) + RETRY_DELAY
                 \<le> lastActivity (objects (snd (initializeClient_p0 w now sessionExists s u 0))
                                  (created s + Suc k))"
      by simp
    from initializeClient_p1_stamps [OF ok i n z, of now]
    show "\<forall>k < MAX_RETRIES.
               lastActivity (objects (snd (initializeClient_p1 w now s u 0)) (created s + k))
                   + RETRY_DELAY
                 \<le> lastActivity (objects (snd (initializeClient_p1 w now s u 0))
                                  (created s + Suc k))"
      by simp
  qed
  from a b c d show ?thesis
    by simp
qed

text \<open>
  A first request of tenant \<open>a\<close>, with a driver that cannot start and with one that cannot
  be built. And a request of tenant \<open>c\<close> at time 7 on the pool of \<open>a\<close> and \<open>b\<close>, with the
  driver that cannot start: the first attempt finds nobody older than its clock; the
  first retry, 2000 ms later, finds \<open>a\<close> and tears its record down, which takes another
  2000 ms; the clients of the three attempts are built at the times 7, 4007 and 6007.
\<close>

theorem retries_then_rejects_witness:
  "initialize_err failing = (\<lambda>r. Some ''Failed to launch the browser process'')
   \<and> construct_err failing = (\<lambda>r. None)
   \<and> construct_err unbuildable = (\<lambda>r. Some ''Invalid clientId'')
   \<and> get_client empty_server ''a'' = None
   \<and> fst (initializeClient_p0 failing 0 False empty_server ''a'' 0)
        = Threw ''Failed to launch the browser process''
   \<and> activeClients (snd (initializeClient_p0 failing 0 False empty_server ''a'' 0)) = []
   \<and> created (snd (initializeClient_p0 failing 0 False empty_server ''a'' 0)) = 3
   \<and> created (snd (initializeClient_p1 failing 0 empty_server ''a'' 0)) = 3
   \<and> retry_waits (snd (initializeClient_p0 failing 0 False empty_server ''a'' 0)) = [2000, 2000]
   \<and> retry_waits (snd (initializeClient_p1 failing 0 empty_server ''a'' 0)) = [2000, 2000]
   \<and> fst (initializeClient_p0 unbuildable 0 False empty_server ''a'' 0) = Threw ''Invalid clientId''
   \<and> count_list (console (snd (initializeClient_p0 unbuildable 0 False empty_server ''a'' 0)))
         (init_error_line ''a'') = 3
   \<and> get_client (snd (initializeClient_p1 unbuildable 0 empty_server ''a'' 0)) ''a'' = None
   \<and> get_client paired_p0 ''c'' = None
   \<and> activeClients paired_p0 = [(''a'', 0), (''b'', 1)]
   \<and> retry_waits (snd (initializeClient_p0 failing 7 False paired_p0 ''c'' 0)) = [2000, 2000]
   \<and> destroyed (snd (initializeClient_p0 failing 7 False paired_p0 ''c'' 0)) = [0]
   \<and> activeClients (snd (initializeClient_p0 failing 7 False paired_p0 ''c'' 0)) = [(''b'', 1)]
   \<and> map (\<lambda>r. lastActivity (objects (snd (initializeClient_p0 failing 7 False paired_p0 ''c'' 0)) r))
         [2, 3, 4] = [7, 4007, 6007]"
proof -
  have f: "initialize_err failing = (\<lambda>r. Some ''Failed to launch the browser process'')"
    and f0: "construct_err failing = (\<lambda>r. None)"
    by (simp_all add: failing_def calm_def)
  have b: "construct_err unbuildable = (\<lambda>r. Some ''Invalid clientId'')"
    by (simp add: unbuildable_def)
  from f have f': "\<forall>r. construct_err failing r \<noteq> None \<or> initialize_err failing r \<noteq> None"
    by simp
  from b have b': "\<forall>r. construct_err unbuildable r \<noteq> None \<or> initialize_err unbuildable r \<noteq> None"
    by simp
  have n: "get_client empty_server ''a'' = None"
    by (simp add: get_client_def empty_server_def)
  have a: "activeClients (snd (initializeClient_p0 failing 0 False empty_server ''a'' 0)) = []"
    and t: "fst (initializeClient_p0 failing 0 False empty_server ''a'' 0)
              = Threw ''Failed to launch the browser process''"
    and t': "fst (initializeClient_p0 unbuildable 0 False empty_server ''a'' 0) = Threw ''Invalid clientId''"
    by code_simp+
  have c: "created empty_server = 0" "console empty_server = []" "retry_waits empty_server = []"
    by (simp_all add: empty_server_def)
  have p: "get_client paired_p0 ''c'' = None" "activeClients paired_p0 = [(''a'', 0), (''b'', 1)]"
    "retry_waits paired_p0 = []"
    by code_simp+
  have q: "destroyed (snd (initializeClient_p0 failing 7 False paired_p0 ''c'' 0)) = [0]"
    "activeClients (snd (initializeClient_p0 failing 7 False paired_p0 ''c'' 0)) = [(''b'', 1)]"
    "map (\<lambda>r. lastActivity (objects (snd (initializeClient_p0 failing 7 False paired_p0 ''c'' 0)) r))
         [2, 3, 4] = [7, 4007, 6007]"
    by code_simp+
  have two: "replicate MAX_RETRIES RETRY_DELAY = [2000, 2000]"
    by (simp add: MAX_RETRIES_def RETRY_DELAY_def numeral_2_eq_2)
  note w1 = retries_then_rejects [OF f' disjI1, OF n, where now = 0 and sessionExists = False]
  note w2 = retries_then_rejects [OF b' disjI1, OF n, where now = 0 and sessionExists = False]
  note w3 = retries_then_rejects [OF f' disjI1, OF p(1), where now = 7 and sessionExists = False]
  from w1 f0 c two have 1: "created (snd (initializeClient_p0 failing 0 False empty_server ''a'' 0)) = 3"
    "created (snd (initializeClient_p1 failing 0 empty_server ''a'' 0)) = 3"
    "retry_waits (snd (initializeClient_p0 failing 0 False empty_server ''a'' 0)) = [2000, 2000]"
    "retry_waits (snd (initializeClient_p1 failing 0 empty_server ''a'' 0)) = [2000, 2000]"
    by (simp_all add: MAX_RETRIES_def)
  from w2 c have 2: "count_list (console (snd (initializeClient_p0 unbuildable 0 False empty_server ''a'' 0)))
         (init_error_line ''a'') = 3"
    "get_client (snd (initializeClient_p1 unbuildable 0 empty_server ''a'' 0)) ''a'' = None"
    by (simp_all add: MAX_RETRIES_def)
  from w3 p two have 3: "retry_waits (snd (initializeClient_p0 failing 7 False paired_p0 ''c'' 0)) = [2000, 2000]"
    by simp
  from f f0 b n a t t' 1 2 3 p q show ?thesis
    by simp
qed

end
